theory Spec2Isabelle
  imports Main
begin

section \<open>Python values and exceptions\<close>

text \<open>
  A raised Python exception is carried as its class name and the text \<open>str(ex)\<close>;
  \<open>update_models\<close> stores that text, \<open>get_error_message\<close> reports both.
\<close>

datatype exn = Exn (exn_class: string) (str: string)

definition IndexError :: "string \<Rightarrow> exn" where
  "IndexError msg = Exn ''IndexError'' msg"

definition quoted :: "string \<Rightarrow> string" where
  "quoted s = [CHR 0x27] @ s @ [CHR 0x27]"

text \<open>
  \<open>repr\<close> of a \<open>str\<close>: the quote is the double quote when the string has a single
  quote and no double quote, the single quote otherwise; the quote and the backslash
  are escaped, tab, newline and carriage return are written \<open>\t\<close>, \<open>\n\<close>, \<open>\r\<close>, any
  other control character \<open>\xhh\<close>. Bytes of a non-ASCII character are kept.
\<close>

definition hex_lower :: "nat \<Rightarrow> char" where
  "hex_lower n = ''0123456789abcdef'' ! (n mod 16)"

definition repr_char :: "char \<Rightarrow> char \<Rightarrow> string" where
  "repr_char q c =
     (if c = q \<or> c = CHR 0x5C then [CHR 0x5C, c]
      else if c = CHR 0x09 then [CHR 0x5C, CHR ''t'']
      else if c = CHR 0x0A then [CHR 0x5C, CHR ''n'']
      else if c = CHR 0x0D then [CHR 0x5C, CHR ''r'']
      else if (of_char c :: nat) < 32 \<or> c = CHR 0x7F
      then [CHR 0x5C, CHR ''x'', hex_lower (of_char c div 16), hex_lower (of_char c mod 16)]
      else [c])"

definition py_repr :: "string \<Rightarrow> string" where
  "py_repr s =
     (let q = (if CHR 0x27 \<in> set s \<and> CHR 0x22 \<notin> set s then CHR 0x22 else CHR 0x27)
      in q # concat (map (repr_char q) s) @ [q])"

definition KeyError :: "string \<Rightarrow> exn" where
  \<comment> \<open>\<open>str(KeyError(k))\<close> is the repr of the key\<close>
  "KeyError k = Exn ''KeyError'' (py_repr k)"

definition AttributeError :: "string \<Rightarrow> exn" where
  "AttributeError msg = Exn ''AttributeError'' msg"

definition no_attribute :: "string \<Rightarrow> string \<Rightarrow> exn" where
  "no_attribute cls attr =
     AttributeError (quoted cls @ '' object has no attribute '' @ quoted attr)"

definition RecursionError :: exn where
  "RecursionError = Exn ''RecursionError'' ''maximum recursion depth exceeded''"

definition ValueError :: "string \<Rightarrow> exn" where
  "ValueError msg = Exn ''ValueError'' msg"

text \<open>
  The values that travel through schemas, examples and predictions. A float is carried
  by its literal; no arithmetic is done on it anywhere in the program.
\<close>

datatype pyval =
    PNone
  | PInt int
  | PFloat string
  | PStr string
  | PList "pyval list"

section \<open>Configuration and registry entities\<close>

text \<open>The options of \<open>config.py\<close> that the server and the handlers read.\<close>

record config =
  basepath :: string
  staging :: bool
  tags :: "string list"
  token :: "string list"

text \<open>
  \<open>mlflow\<close>'s \<open>ModelVersion\<close> and \<open>RegisteredModel\<close>, with the attributes the program
  reads. The version number is the \<open>str\<close> that the registry's REST client delivers.
\<close>

record model_version =
  mv_version :: string
  mv_run_id :: string
  mv_source :: string
  current_stage :: string
  creation_timestamp :: int

record registered_model =
  rm_name :: string
  rm_tags :: "(string \<times> string) list"
  rm_description :: "string option"
  latest_versions :: "model_version list"

section \<open>Desired-version selection\<close>

definition index0 :: "'a list \<Rightarrow> exn + 'a" where
  \<comment> \<open>\<open>xs[0]\<close>\<close>
  "index0 xs = (case xs of [] \<Rightarrow> Inl (IndexError ''list index out of range'') | x # _ \<Rightarrow> Inr x)"

definition get_version :: "config \<Rightarrow> registered_model \<Rightarrow> exn + model_version" where
  "get_version cfg m =
     (let prod_models = [mm \<leftarrow> latest_versions m. current_stage mm = ''Production''];
          stage_models = [mm \<leftarrow> latest_versions m. current_stage mm = ''Staging'']
      in if staging cfg \<and> length stage_models > 0 then index0 stage_models
         else if length prod_models > 0 then index0 prod_models
         else index0 (latest_versions m))"

section \<open>Schemas and synthesized examples\<close>

text \<open>
  One element of \<open>Schema.to_dict()\<close>: a column (\<open>{"name", "type"}\<close>) or a tensor
  (\<open>{"name", "type": "tensor", "tensor-spec": {"dtype", "shape"}}\<close>). The name is
  optional. A shape entry is a Python int; mlflow writes \<open>-1\<close> for a variable dimension.
\<close>

datatype el =
    ColSpec (el_name: "string option") (col_type: string)
  | TensorSpec (el_name: "string option") (dtype: string) (shape: "int list")

definition dtype_sample :: "string \<rightharpoonup> pyval" where
  "dtype_sample =
     [''float64'' \<mapsto> PFloat ''1.234'',
      ''float32'' \<mapsto> PFloat ''1.234'',
      ''int'' \<mapsto> PInt 1,
      ''int64'' \<mapsto> PInt 1,
      ''int32'' \<mapsto> PInt 1,
      ''str'' \<mapsto> PStr ''A'',
      ''object'' \<mapsto> PStr ''?'']"

text \<open>
  \<open>[x] * k\<close> is \<open>replicate (nat k) x\<close>: a zero or negative \<open>k\<close> gives the empty list.
  On the empty shape the source takes its \<open>else\<close> branch and calls itself on
  \<open>shape[1:]\<close>, the empty shape again, until the interpreter raises RecursionError.
\<close>

fun get_nested :: "string \<Rightarrow> int list \<Rightarrow> exn + pyval" where
  "get_nested dt [] = Inl RecursionError"
| "get_nested dt [d] =
     (case dtype_sample dt of
        None \<Rightarrow> Inl (KeyError dt)
      | Some smp \<Rightarrow> Inr (PList (replicate (nat d) smp)))"
| "get_nested dt (d # ds) =
     (case get_nested dt ds of
        Inl ex \<Rightarrow> Inl ex
      | Inr inner \<Rightarrow> Inr (PList (replicate (nat (max 1 d)) inner)))"

fun get_example_el :: "el \<Rightarrow> exn + pyval" where
  "get_example_el (TensorSpec n dt sh) = get_nested dt sh"
| "get_example_el (ColSpec n t) = Inr PNone"

text \<open>
  Observations on a nested value: its nesting depth (a scalar has depth 0, a list one
  more than its deepest element, the empty list depth 1) and the values found
  \<open>i\<close> levels below the top.
\<close>

fun depth :: "pyval \<Rightarrow> nat" where
  "depth (PList xs) = Suc (foldr max (map depth xs) 0)"
| "depth v = 0"

fun elements :: "pyval \<Rightarrow> pyval list" where
  "elements (PList xs) = xs"
| "elements v = []"

fun level :: "nat \<Rightarrow> pyval \<Rightarrow> pyval list" where
  "level 0 v = [v]"
| "level (Suc i) v = concat (map (level i) (elements v))"

section \<open>Environment provisioning\<close>

text \<open>
  Path and string helpers of the standard library, in their POSIX form:
  \<open>os.path.join\<close> of two parts, \<open>os.path.basename\<close> (which is also
  \<open>p.split("/")[-1]\<close>), the substring test \<open>a in b\<close> and \<open>rstrip("\n")\<close>.
\<close>

definition path_join :: "string \<Rightarrow> string \<Rightarrow> string" where
  "path_join a b =
     (if b \<noteq> [] \<and> hd b = CHR ''/'' then b
      else if a = [] \<or> last a = CHR ''/'' then a @ b
      else a @ ''/'' @ b)"

definition basename :: "string \<Rightarrow> string" where
  "basename p = rev (takeWhile (\<lambda>c. c \<noteq> CHR ''/'') (rev p))"

fun startswith :: "string \<Rightarrow> string \<Rightarrow> bool" where
  "startswith s [] = True"
| "startswith [] (p # ps) = False"
| "startswith (c # cs) (p # ps) = (c = p \<and> startswith cs ps)"

fun contains :: "string \<Rightarrow> string \<Rightarrow> bool" where
  "contains [] sub = (sub = [])"
| "contains (c # cs) sub = (startswith (c # cs) sub \<or> contains cs sub)"

definition rstrip_newline :: "string \<Rightarrow> string" where
  "rstrip_newline r = rev (dropWhile (\<lambda>c. c = CHR 0x0A) (rev r))"

text \<open>
  The actions that \<open>_setup_model\<close> performs on the outside world: writing to, flushing
  and closing the log file, the artifact download, and the start of a process with its
  argument list and working directory.
\<close>

datatype action =
    Write string
  | Flush
  | Close
  | Download string string
  | Run "string list" string

text \<open>
  What the outside world answers while \<open>_setup_model\<close> runs. Every answer but the
  first may depend on the actions performed so far, the first argument. Opening the log
  file, every write, flush and close on it, and the artifact download may raise.
  \<open>requirements.txt\<close> is absent, or reading it raises or gives its lines; the default
  requirement list of mlflow is used in its absence, and asking for it may raise.
  \<open>glob\<close> lists the bundled code packages, \<open>os.path.exists\<close> tells whether a package
  has requirements of its own. \<open>subprocess.run\<close> either raises (the program cannot be
  started) or completes with a return code.
\<close>

record setup_world =
  open_log :: "exn option"
  log_io :: "action list \<Rightarrow> action \<Rightarrow> exn option"
  download_artifact :: "action list \<Rightarrow> exn option"
  requirements_txt :: "action list \<Rightarrow> (exn + string list) option"
  default_pip_requirements :: "action list \<Rightarrow> exn + string list"
  code_libs :: "action list \<Rightarrow> string list"
  lib_requirements_exists :: "action list \<Rightarrow> string \<Rightarrow> bool"
  subprocess_run :: "action list \<Rightarrow> string list \<Rightarrow> string \<Rightarrow> exn + int"

text \<open>
  A step of provisioning takes the actions performed so far and gives the actions
  performed after it, and the exception it raised, if any. Steps run one after the
  other until one raises. The completed process of a \<open>subprocess.run\<close> is bound to a
  name (\<open>result_env\<close>, \<open>result_pip\<close>, \<open>result_lib\<close>) that is never read.
\<close>

type_synonym step = "action list \<Rightarrow> action list \<times> exn option"

definition log_op :: "setup_world \<Rightarrow> action \<Rightarrow> step" where
  "log_op w a so_far = (so_far @ [a], log_io w so_far a)"

definition download :: "setup_world \<Rightarrow> string \<Rightarrow> string \<Rightarrow> step" where
  "download w artifact_uri output_path so_far =
     (so_far @ [Download artifact_uri output_path], download_artifact w so_far)"

definition run_process :: "setup_world \<Rightarrow> string list \<Rightarrow> string \<Rightarrow> step" where
  "run_process w argv cwd so_far =
     (so_far @ [Run argv cwd],
      case subprocess_run w so_far argv cwd of
        Inl ex \<Rightarrow> Some ex
      | Inr completed \<Rightarrow> None)"

fun in_order :: "step list \<Rightarrow> step" where
  "in_order [] so_far = (so_far, None)"
| "in_order (st # rest) so_far =
     (case st so_far of
        (t, Some ex) \<Rightarrow> (t, Some ex)
      | (t, None) \<Rightarrow> in_order rest t)"

text \<open>The loop over the bundled code packages.\<close>

fun install_libs :: "setup_world \<Rightarrow> string \<Rightarrow> string list \<Rightarrow> step" where
  "install_libs w model_folder [] so_far = (so_far, None)"
| "install_libs w model_folder (lib_folder # rest) so_far =
     (let env_pip = path_join model_folder ''./env/Scripts/pip'';
          lib_req_file = path_join lib_folder ''requirements.txt''
      in case in_order
                [\<lambda>t. if lib_requirements_exists w t lib_req_file
                     then run_process w [env_pip, ''install'', ''-r'', lib_req_file] model_folder t
                     else (t, None),
                 log_op w Flush,
                 run_process w [path_join model_folder ''./env/Scripts/python'', ''./setup.py'',
                                ''build'', ''install''] lib_folder,
                 log_op w Flush] so_far of
           (t, Some ex) \<Rightarrow> (t, Some ex)
         | (t, None) \<Rightarrow> install_libs w model_folder rest t)"

definition strip_requirements :: "string list \<Rightarrow> string list \<Rightarrow> string list" where
  \<comment> \<open>drop every requirement that mentions a bundled package, then the trailing newlines\<close>
  "strip_requirements libs req =
     map rstrip_newline
       (foldl (\<lambda>req lib_folder. [r \<leftarrow> req. \<not> contains r (basename lib_folder)]) req libs)"

text \<open>
  \<open>_setup_model\<close>: the actions it performed, in order, and the exception it raised, if
  any.
\<close>

definition setup_model :: "setup_world \<Rightarrow> string \<Rightarrow> string \<Rightarrow> string \<Rightarrow> action list \<times> exn option" where
  "setup_model w model_version_source work_folder model_folder =
     (case open_log w of
        Some ex \<Rightarrow> ([], Some ex)
      | None \<Rightarrow>
          in_order
            [log_op w (Write (''Start download '' @ model_folder @ [CHR 0x0A])),
             log_op w Flush,
             download w model_version_source work_folder,
             log_op w (Write (''End download '' @ model_folder @ [CHR 0x0A])),
             log_op w Flush,
             run_process w [''python'', ''-m'', ''venv'', ''env''] model_folder,
             log_op w Flush,
             \<lambda>t. case (case requirements_txt w t of
                           Some readlines \<Rightarrow> readlines
                         | None \<Rightarrow> default_pip_requirements w t) of
                    Inl ex \<Rightarrow> (t, Some ex)
                  | Inr req0 \<Rightarrow>
                      (let env_pip = path_join model_folder ''./env/Scripts/pip'';
                           req = strip_requirements (code_libs w t) req0
                       in in_order
                            ([log_op w (Write (''Install req:'' @ [CHR 0x0A]))]
                             @ map (\<lambda>r. log_op w (Write (r @ [CHR 0x0A]))) req
                             @ [log_op w Flush,
                                run_process w ([env_pip, ''install''] @ req) model_folder,
                                log_op w Flush,
                                \<lambda>t. install_libs w model_folder (code_libs w t) t,
                                log_op w Close]) t)]
            [])"

section \<open>Handlers, routes and the server\<close>

text \<open>
  The attributes of a \<open>BaseHandler\<close>. \<open>self.m\<close> is the field \<open>self_m\<close>. The two
  generated pydantic classes are kept as their fields with the default values. The
  \<open>long_description\<close>, a text for the route's documentation, is left out.
\<close>

record handler =
  self_m :: registered_model
  name :: string
  model_version_source :: string
  run_id :: string
  work_folder :: string
  model_folder :: string
  port :: nat
  input_example_data :: "(string \<times> pyval) list"
  version :: string
  source :: string
  input_schema :: "el list"
  output_schema :: "el list"
  description :: "string option"
  creation :: string
  input_schema_class :: "(string \<times> pyval) list"
  output_schema_class :: "(string \<times> pyval) list"

datatype http_method = GET | POST

text \<open>
  An entry of \<open>app.routes\<close>. \<open>serves\<close> is the run identifier of the handler whose
  \<open>apply_model\<close> the route's function calls (the route closes over its handler);
  it is \<open>None\<close> for the server's own routes.
\<close>

record route =
  path :: string
  http_method :: http_method
  route_name :: string
  needs_token :: bool
  serves :: "string option"

text \<open>
  The state of a \<open>Server\<close>. \<open>full_cache_dir\<close> is read by \<open>BaseHandler.__init__\<close>
  but assigned nowhere in \<open>server.py\<close>: it is \<open>None\<close> while the attribute is not set.
  \<open>openapi_schema\<close> tells whether a generated schema is cached.
\<close>

record server =
  config :: config
  full_cache_dir :: "string option"
  model_dict :: "string \<rightharpoonup> handler"
  error_dict :: "string \<rightharpoonup> string"
  routes :: "route list"
  openapi_schema :: bool

text \<open>
  What the outside world answers during one \<open>BaseHandler(server, m, model_version)\<close>:
  creating the work folder, whether the model folder is already there, provisioning,
  the port probe, the launch of the inference process, \<open>Model.load\<close> with the two
  schema getters (\<open>None\<close> where the getter raised or returned nothing),
  \<open>input_example.json\<close> (\<open>{}\<close> on any failure), the formatted creation time, the
  prediction on the input example (\<open>{}\<close> on any failure), the creation of the two
  pydantic classes (the second entry also stands for instantiating both), and the
  registration of the route with the HTTP framework. \<open>empty_schema_truthy\<close> is the
  truth value of an empty \<open>Schema\<close> object, which depends on the mlflow release.
\<close>

record externals =
  mkdir :: "exn option"
  model_folder_exists :: bool
  setup_env :: setup_world
  get_free_port :: "exn + nat"
  start_server :: "exn option"
  load_metadata :: "exn + (el list option \<times> el list option)"
  empty_schema_truthy :: bool
  get_input_example :: "(string \<times> pyval) list"
  format_creation :: "int \<Rightarrow> exn + string"
  example_prediction :: "(string \<times> pyval) list"
  create_input_class :: "exn option"
  create_output_class :: "exn option"
  add_api_route :: "exn option"

text \<open>
  A \<open>dict\<close> whose order matters is a list of pairs with distinct keys; \<open>d[k] = v\<close>
  replaces the value of a key that is there and appends a new key at the end.
\<close>

fun dict_set :: "(string \<times> 'v) list \<Rightarrow> string \<Rightarrow> 'v \<Rightarrow> (string \<times> 'v) list" where
  "dict_set [] k v = [(k, v)]"
| "dict_set ((k', v') # d) k v = (if k' = k then (k, v) # d else (k', v') # dict_set d k v)"

text \<open>
  The field dictionaries of \<open>update_schema_classes\<close>, built element by element. Input
  elements without a name are skipped; an output element without a name raises
  KeyError at \<open>el["name"]\<close>.
\<close>

fun input_fields ::
  "(string \<times> pyval) list \<Rightarrow> el list \<Rightarrow> (string \<times> pyval) list \<Rightarrow> exn + (string \<times> pyval) list" where
  "input_fields ex_data [] d = Inr d"
| "input_fields ex_data (e # es) d =
     (case el_name e of
        None \<Rightarrow> input_fields ex_data es d
      | Some n \<Rightarrow>
          (case (case map_of ex_data n of Some v \<Rightarrow> Inr v | None \<Rightarrow> get_example_el e) of
             Inl ex \<Rightarrow> Inl ex
           | Inr v \<Rightarrow> input_fields ex_data es (dict_set d n v)))"

fun output_fields ::
  "(string \<times> pyval) list \<Rightarrow> el list \<Rightarrow> (string \<times> pyval) list \<Rightarrow> exn + (string \<times> pyval) list" where
  "output_fields ex_data [] d = Inr d"
| "output_fields ex_data (e # es) d =
     (case el_name e of
        None \<Rightarrow> Inl (KeyError ''name'')
      | Some n \<Rightarrow>
          (case (case map_of ex_data n of Some v \<Rightarrow> Inr v | None \<Rightarrow> get_example_el e) of
             Inl ex \<Rightarrow> Inl ex
           | Inr v \<Rightarrow> output_fields ex_data es (dict_set d n v)))"

definition update_schema_classes :: "externals \<Rightarrow> handler \<Rightarrow> exn + handler" where
  "update_schema_classes x h =
     (case input_fields (input_example_data h) (input_schema h) [] of
        Inl ex \<Rightarrow> Inl ex
      | Inr ifs \<Rightarrow>
     case create_input_class x of
        Some ex \<Rightarrow> Inl ex
      | None \<Rightarrow>
     case output_fields (example_prediction x) (output_schema h) [] of
        Inl ex \<Rightarrow> Inl ex
      | Inr ofs \<Rightarrow>
     case create_output_class x of
        Some ex \<Rightarrow> Inl ex
      | None \<Rightarrow> Inr (h\<lparr>input_schema_class := ifs, output_schema_class := ofs\<rparr>))"

text \<open>
  \<open>register_route\<close> appends one route to \<open>app.routes\<close>: GET when the handler has no
  inputs, POST otherwise, with the token check when a token list is configured. The
  test \<open>input_schema_class is None\<close> of the source adds nothing to the length test: the
  class is \<open>None\<close> only for a falsy, hence empty, schema.
\<close>

definition register_route :: "server \<Rightarrow> handler \<Rightarrow> server" where
  "register_route s h =
     s\<lparr>routes := routes s @
         [\<lparr>path = basepath (config s) @ ''/'' @ name h,
           http_method = (if length (input_schema h) = 0 then GET else POST),
           route_name = name h,
           needs_token = (length (token (config s)) > 0),
           serves = Some (run_id h)\<rparr>]\<rparr>"

definition provenance_fields :: "el list" where
  \<comment> \<open>the two \<open>TensorSpec\<close>s appended to every output schema; \<open>np.dtype("int")\<close> is named \<open>int64\<close>\<close>
  "provenance_fields =
     [TensorSpec (Some ''x__version'') ''int64'' [1],
      TensorSpec (Some ''x__mlflow_id'') ''str'' [1]]"

text \<open>
  \<open>BaseHandler.__init__\<close>, with the provisioning actions it performed. Nothing before
  the final \<open>register_route\<close> touches the server, so a constructor that raises leaves
  the server as it was. An absent or empty schema becomes \<open>Schema([])\<close>; where an empty
  \<open>Schema\<close> is falsy the attribute is then the dictionary \<open>{"inputs": []}\<close>, and the next
  use of it as a \<open>Schema\<close> raises AttributeError (\<open>_inputs\<close> for the output,
  \<open>to_dict\<close> for the input).
\<close>

definition BaseHandler_init ::
  "externals \<Rightarrow> server \<Rightarrow> registered_model \<Rightarrow> model_version
     \<Rightarrow> action list \<times> (exn + (handler \<times> server))" where
  "BaseHandler_init x s m0 model_version =
     (case full_cache_dir s of
        None \<Rightarrow> ([], Inl (no_attribute ''Server'' ''full_cache_dir''))
      | Some cache_dir \<Rightarrow>
     let wf = path_join cache_dir (mv_run_id model_version);
         mf = path_join wf (basename (mv_source model_version))
     in case mkdir x of
        Some ex \<Rightarrow> ([], Inl ex)
      | None \<Rightarrow>
     let (acts, raised) =
           (if model_folder_exists x then ([], None)
            else setup_model (setup_env x) (mv_source model_version) wf mf)
     in case raised of
        Some ex \<Rightarrow> (acts, Inl ex)
      | None \<Rightarrow>
     case get_free_port x of
        Inl ex \<Rightarrow> (acts, Inl ex)
      | Inr p \<Rightarrow>
     case start_server x of
        Some ex \<Rightarrow> (acts, Inl ex)
      | None \<Rightarrow>
     case load_metadata x of
        Inl ex \<Rightarrow> (acts, Inl ex)
      | Inr (ins, outs) \<Rightarrow>
     let ischema = (case ins of None \<Rightarrow> [] | Some es \<Rightarrow> es);
         oschema = (case outs of None \<Rightarrow> [] | Some es \<Rightarrow> es)
     in if oschema = [] \<and> \<not> empty_schema_truthy x
        then (acts, Inl (no_attribute ''dict'' ''_inputs''))
        else
     case format_creation x (creation_timestamp model_version) of
        Inl ex \<Rightarrow> (acts, Inl ex)
      | Inr created \<Rightarrow>
     if ischema = [] \<and> \<not> empty_schema_truthy x
     then (acts, Inl (no_attribute ''dict'' ''to_dict''))
     else
     case update_schema_classes x
            \<lparr>self_m = m0,
             name = rm_name m0,
             model_version_source = mv_source model_version,
             run_id = mv_run_id model_version,
             work_folder = wf,
             model_folder = mf,
             port = p,
             input_example_data = get_input_example x,
             version = mv_version model_version,
             source = mv_source model_version,
             input_schema = ischema,
             output_schema = oschema @ provenance_fields,
             description = rm_description m0,
             creation = created,
             input_schema_class = [],
             output_schema_class = []\<rparr> of
        Inl ex \<Rightarrow> (acts, Inl ex)
      | Inr h \<Rightarrow>
     case add_api_route x of
        Some ex \<Rightarrow> (acts, Inl ex)
      | None \<Rightarrow> (acts, Inr (h, register_route s h)))"

section \<open>Reconciliation\<close>

text \<open>
  \<open>urllib.parse.quote_plus\<close> on the bytes of the name: letters, digits and
  \<open>_.-~\<close> stay, a space becomes \<open>+\<close>, every other byte becomes \<open>%XX\<close>.
\<close>

definition always_safe :: "char \<Rightarrow> bool" where
  "always_safe c \<longleftrightarrow>
     c \<in> set ''ABCDEFGHIJKLMNOPQRSTUVWXYZabcdefghijklmnopqrstuvwxyz0123456789_.-~''"

definition hex_digit :: "nat \<Rightarrow> char" where
  "hex_digit n = ''0123456789ABCDEF'' ! (n mod 16)"

definition quote_char :: "char \<Rightarrow> string" where
  "quote_char c =
     (if c = CHR '' '' then ''+''
      else if always_safe c then [c]
      else [CHR ''%'', hex_digit (of_char c div 16), hex_digit (of_char c mod 16)])"

definition quote_plus :: "string \<Rightarrow> string" where
  "quote_plus s = concat (map quote_char s)"

text \<open>
  The outside world of one reconciliation pass: the answer of the registry, and for each
  construction the answers of record \<open>externals\<close>.
\<close>

record world =
  list_registered_models :: "exn + registered_model list"
  construct :: "registered_model \<Rightarrow> model_version \<Rightarrow> externals"

text \<open>
  The deletion loop of \<open>update_models\<close>: the indices of the routes at the model's path
  are collected first, then \<open>del app.routes[idx2]\<close> runs for each of them on the list
  as it is by then. An index past the end raises IndexError; the deletions done so far
  stay.
\<close>

definition route_indices :: "string \<Rightarrow> route list \<Rightarrow> nat list" where
  "route_indices p rs = [idx \<leftarrow> [0 ..< length rs]. path (rs ! idx) = p]"

fun del_routes :: "nat list \<Rightarrow> route list \<Rightarrow> route list \<times> exn option" where
  "del_routes [] rs = (rs, None)"
| "del_routes (idx2 # rest) rs =
     (if idx2 < length rs then del_routes rest (take idx2 rs @ drop (Suc idx2) rs)
      else (rs, Some (IndexError ''list assignment index out of range'')))"

text \<open>
  A record of one \<open>BaseHandler(...)\<close> call made by a pass: the quoted model name, the
  run identifier of the desired version, the provisioning actions performed, and whether
  the constructor returned.
\<close>

record attempt =
  attempt_name :: string
  attempt_run :: string
  provisioned :: "action list"
  succeeded :: bool

text \<open>
  One iteration of the loop of \<open>update_models\<close>, for the descriptor \<open>m0\<close>. The result is
  the server afterwards, the constructions attempted, and the exception that leaves the
  loop, if any. Only the constructor call and the two updates after it stand inside
  \<open>try\<close>.
\<close>

definition update_model ::
  "world \<Rightarrow> server \<Rightarrow> registered_model \<Rightarrow> server \<times> attempt list \<times> exn option" where
  "update_model w s m0 =
     (let qname = quote_plus (rm_name m0) in
      case get_version (config s) m0 of
        Inl ex \<Rightarrow> (s, [], Some ex)
      | Inr model_version \<Rightarrow>
          if (case model_dict s qname of
                None \<Rightarrow> False
              | Some h \<Rightarrow> mv_run_id model_version = run_id h)
          then (s, [], None)
          else if length (tags (config s)) > 0
                  \<and> list_all (\<lambda>tt. tt \<notin> set (map fst (rm_tags m0))) (tags (config s))
          then (s, [], None)
          else
            (case del_routes (route_indices (basepath (config s) @ ''/'' @ qname) (routes s)) (routes s) of
               (rs, Some ex) \<Rightarrow> (s\<lparr>routes := rs\<rparr>, [], Some ex)
             | (rs, None) \<Rightarrow>
                 (let s1 = s\<lparr>routes := rs\<rparr> in
                  case BaseHandler_init (construct w m0 model_version) s1 m0 model_version of
                    (acts, Inr (newmodel, s2)) \<Rightarrow>
                      (s2\<lparr>model_dict := (model_dict s2)(qname \<mapsto> newmodel),
                          error_dict := (error_dict s2)(qname := None)\<rparr>,
                       [\<lparr>attempt_name = qname, attempt_run = mv_run_id model_version,
                         provisioned = acts, succeeded = True\<rparr>], None)
                  | (acts, Inl ex) \<Rightarrow>
                      (s1\<lparr>error_dict := (error_dict s1)(''name'' \<mapsto> str ex)\<rparr>,
                       [\<lparr>attempt_name = qname, attempt_run = mv_run_id model_version,
                         provisioned = acts, succeeded = False\<rparr>], None))))"

fun update_loop ::
  "world \<Rightarrow> server \<Rightarrow> registered_model list \<Rightarrow> server \<times> attempt list \<times> exn option" where
  "update_loop w s [] = (s, [], None)"
| "update_loop w s (m0 # ms) =
     (case update_model w s m0 of
        (s1, t1, Some ex) \<Rightarrow> (s1, t1, Some ex)
      | (s1, t1, None) \<Rightarrow>
          (case update_loop w s1 ms of
             (s2, t2, r) \<Rightarrow> (s2, t1 @ t2, r)))"

definition update_models ::
  "world \<Rightarrow> server \<Rightarrow> server \<times> attempt list \<times> exn option" where
  "update_models w s =
     (let (all_models, s0) =
            (case list_registered_models w of
               Inr ms \<Rightarrow> (ms, s\<lparr>error_dict := (error_dict s)(''server'' := None)\<rparr>)
             | Inl ex \<Rightarrow> ([], s\<lparr>error_dict := (error_dict s)(''server'' \<mapsto> str ex)\<rparr>))
      in case update_loop w s0 all_models of
           (s1, t, Some ex) \<Rightarrow> (s1, t, Some ex)
         | (s1, t, None) \<Rightarrow> (s1\<lparr>openapi_schema := False\<rparr>, t, None))"

text \<open>
  A descriptor is up to date in a server state when its loop iteration takes one of the
  two \<open>continue\<close>s: the handler under its name already has the desired run identifier,
  or the tag list excludes it.
\<close>

definition up_to_date :: "server \<Rightarrow> registered_model \<Rightarrow> bool" where
  "up_to_date s m0 =
     (case get_version (config s) m0 of
        Inl ex \<Rightarrow> False
      | Inr model_version \<Rightarrow>
          (case model_dict s (quote_plus (rm_name m0)) of
             None \<Rightarrow> False
           | Some h \<Rightarrow> mv_run_id model_version = run_id h)
          \<or> (length (tags (config s)) > 0
              \<and> list_all (\<lambda>tt. tt \<notin> set (map fst (rm_tags m0))) (tags (config s))))"

section \<open>Metadata endpoints\<close>

datatype info_value =
    IStr string
  | IOptStr "string option"
  | IVersions "model_version list"
  | ISchema "el list"

definition info :: "handler \<Rightarrow> (string \<rightharpoonup> info_value)" where
  "info h =
     [''name'' \<mapsto> IStr (name h),
      ''version'' \<mapsto> IStr (version h),
      ''latest_versions'' \<mapsto> IVersions (latest_versions (self_m h)),
      ''input'' \<mapsto> ISchema (input_schema h),
      ''output'' \<mapsto> ISchema (output_schema h),
      ''description'' \<mapsto> IOptStr (description h),
      ''creation'' \<mapsto> IStr (creation h)]"

definition modelinfo :: "server \<Rightarrow> string \<Rightarrow> (string \<rightharpoonup> info_value)" where
  "modelinfo s model =
     (case model_dict s model of
        Some h \<Rightarrow> info h
      | None \<Rightarrow> Map.empty)"

section \<open>Handler invocation\<close>

text \<open>
  \<open>str(n)\<close> of a natural number: its decimal digits.
\<close>

fun dec :: "nat \<Rightarrow> string" where
  "dec n = (if n < 10 then [char_of (48 + n)] else dec (n div 10) @ [char_of (48 + n mod 10)])"

declare dec.simps [simp del]

text \<open>
  \<open>int(s)\<close> on a \<open>str\<close>. For a string of ASCII characters with no more digits than
  the interpreter's limit allows (\<open>int_max_str_digits\<close>, 0 for no limit): whitespace
  (tab, newline, vertical tab, form feed, carriage return, space) around it is dropped,
  one sign is allowed, then come decimal digits, with single underscores between
  digits; anything else raises ValueError, whose message ends with the \<open>repr\<close> of the
  string, cut after 200 characters. For every other string (a non-ASCII
  character, or more digits than the limit) the answer is the interpreter's own,
  \<open>int_other\<close>.
\<close>

record interpreter =
  int_max_str_digits :: nat
  int_other :: "string \<Rightarrow> exn + int"

definition is_space :: "char \<Rightarrow> bool" where
  "is_space c \<longleftrightarrow> c \<in> set [CHR 0x09, CHR 0x0A, CHR 0x0B, CHR 0x0C, CHR 0x0D, CHR 0x20]"

definition strip :: "string \<Rightarrow> string" where
  "strip s = rev (dropWhile is_space (rev (dropWhile is_space s)))"

definition is_digit :: "char \<Rightarrow> bool" where
  "is_digit c \<longleftrightarrow> 48 \<le> (of_char c :: nat) \<and> (of_char c :: nat) \<le> 57"

fun parse_digits :: "string \<Rightarrow> bool \<Rightarrow> int \<Rightarrow> int option" where
  "parse_digits [] after_digit acc = (if after_digit then Some acc else None)"
| "parse_digits (c # cs) after_digit acc =
     (if is_digit c then parse_digits cs True (10 * acc + (int (of_char c) - 48))
      else if c = CHR ''_'' \<and> after_digit then parse_digits cs False acc
      else None)"

definition py_int :: "interpreter \<Rightarrow> string \<Rightarrow> exn + int" where
  "py_int py s =
     (if list_ex (\<lambda>c. 128 \<le> (of_char c :: nat)) s
         \<or> (0 < int_max_str_digits py \<and> int_max_str_digits py < length (filter is_digit s))
      then int_other py s
      else
        (let t = strip s;
             (negative, ds) =
               (case t of
                  [] \<Rightarrow> (False, t)
                | c # r \<Rightarrow>
                    if c = CHR ''-'' then (True, r)
                    else if c = CHR ''+'' then (False, r)
                    else (False, t))
         in case parse_digits ds False 0 of
              None \<Rightarrow> Inl (ValueError (''invalid literal for int() with base 10: ''
                                    @ take 200 (py_repr s)))
            | Some n \<Rightarrow> Inr (if negative then - n else n)))"

text \<open>
  What the predictor receives and returns. \<open>np.array([])\<close> is \<open>NoInput\<close>. A result is a
  data frame (its columns), a mapping from field names to arrays or plain values, or
  any other object, of which only the class name matters. An array is carried by its
  \<open>tolist()\<close>.
\<close>

datatype np_input = NoInput | Batch "(string \<times> pyval) list"

datatype out_value = NdArray pyval | Plain pyval

datatype model_output =
    DataFrame "(string \<times> pyval list) list"
  | Columns "(string \<times> out_value) list"
  | OtherResult string

text \<open>
  The numerical library and the predictor behind \<open>self.model\<close>; a missing \<open>model\<close>
  attribute is a \<open>predict\<close> that raises AttributeError.
\<close>

record predictor =
  np_array :: "pyval \<Rightarrow> exn + pyval"
  astype :: "pyval \<Rightarrow> string \<Rightarrow> exn + pyval"
  predict :: "np_input \<Rightarrow> exn + model_output"

record http_exception =
  status_code :: nat
  loc :: "string list"
  msg :: string
  exc_type :: string

datatype failure = HTTPException http_exception | Uncaught exn

definition get_error_message :: "string \<Rightarrow> exn \<Rightarrow> failure" where
  "get_error_message l ex =
     HTTPException \<lparr>status_code = 442, loc = [l], msg = str ex,
                    exc_type = ''<class '' @ quoted (exn_class ex) @ ''>''\<rparr>"

text \<open>
  \<open>numpy_input\<close>: the dictionary of declared dtypes (a named element without a
  \<open>tensor-spec\<close> raises KeyError), then the conversion of every supplied value.
\<close>

fun input_types :: "el list \<Rightarrow> (string \<times> string) list \<Rightarrow> exn + (string \<times> string) list" where
  "input_types [] d = Inr d"
| "input_types (ColSpec None t # es) d = input_types es d"
| "input_types (ColSpec (Some n) t # es) d = Inl (KeyError ''tensor-spec'')"
| "input_types (TensorSpec None dt sh # es) d = input_types es d"
| "input_types (TensorSpec (Some n) dt sh # es) d = input_types es (dict_set d n dt)"

fun convert_fields ::
  "predictor \<Rightarrow> (string \<rightharpoonup> string) \<Rightarrow> (string \<times> pyval) list \<Rightarrow> (string \<times> pyval) list
     \<Rightarrow> exn + (string \<times> pyval) list" where
  "convert_fields p types [] d = Inr d"
| "convert_fields p types ((key, val) # rest) d =
     (case np_array p val of
        Inl ex \<Rightarrow> Inl ex
      | Inr arr \<Rightarrow>
          (case types key of
             None \<Rightarrow> Inl (KeyError key)
           | Some t \<Rightarrow>
               (case astype p arr t of
                  Inl ex \<Rightarrow> Inl ex
                | Inr a \<Rightarrow> convert_fields p types rest (dict_set d key a))))"

definition numpy_input ::
  "predictor \<Rightarrow> (string \<times> pyval) list \<Rightarrow> el list \<Rightarrow> exn + (string \<times> pyval) list" where
  "numpy_input p data input_cfg =
     (case input_types input_cfg [] of
        Inl ex \<Rightarrow> Inl ex
      | Inr ts \<Rightarrow> convert_fields p (map_of ts) data [])"

fun parse_output :: "model_output \<Rightarrow> exn + (string \<rightharpoonup> pyval)" where
  "parse_output (DataFrame cols) = Inr (map_of (rev (map (\<lambda>(k, vs). (k, PList vs)) cols)))"
| "parse_output (Columns items) =
     Inr (map_of (rev (map (\<lambda>(k, v). (k, case v of NdArray a \<Rightarrow> a | Plain x \<Rightarrow> x)) items)))"
| "parse_output (OtherResult cls) = Inl (no_attribute cls ''items'')"

text \<open>
  \<open>apply_model\<close>. \<open>data\<close> is \<open>data.__dict__\<close> of the request body, or \<open>None\<close> on a GET
  route. The three guarded steps raise the HTTP error of \<open>get_error_message\<close>; the final
  \<open>int(self.version)\<close> is outside every \<open>try\<close>.
\<close>

definition apply_model ::
  "interpreter \<Rightarrow> predictor \<Rightarrow> handler \<Rightarrow> (string \<times> pyval) list option
     \<Rightarrow> failure + (string \<rightharpoonup> pyval)" where
  "apply_model py p h data =
     (case (if length (input_schema h) = 0 then Inr NoInput
            else (case data of
                    None \<Rightarrow> Inl (get_error_message ''Parse input error''
                                   (no_attribute ''NoneType'' ''__dict__''))
                  | Some d \<Rightarrow>
                      (case numpy_input p d (input_schema h) of
                         Inl ex \<Rightarrow> Inl (get_error_message ''Parse input error'' ex)
                       | Inr a \<Rightarrow> Inr (Batch a)))) of
        Inl e \<Rightarrow> Inl e
      | Inr np_in \<Rightarrow>
          (case predict p np_in of
             Inl ex \<Rightarrow> Inl (get_error_message ''Model prediction error'' ex)
           | Inr model_output \<Rightarrow>
               (case parse_output model_output of
                  Inl ex \<Rightarrow> Inl (get_error_message ''Parse output error'' ex)
                | Inr output \<Rightarrow>
                    (case py_int py (version h) of
                       Inl ex \<Rightarrow> Inl (Uncaught ex)
                     | Inr v \<Rightarrow>
                         Inr (output(''x__version'' \<mapsto> PList [PInt v],
                                     ''x__mlflow_id'' \<mapsto> PList [PStr (run_id h)]))))))"

section \<open>Example data\<close>

text \<open>
  A registry entry \<open>iris\<close> with three versions, one per stage, a configuration without
  base path, tags or tokens, and a handler serving the Production version.
\<close>

definition v_none :: model_version where
  "v_none = \<lparr>mv_version = ''1'', mv_run_id = ''r1'', mv_source = ''runs:/r1/model'',
             current_stage = ''None'', creation_timestamp = 1620000000000\<rparr>"

definition v_prod :: model_version where
  "v_prod = \<lparr>mv_version = ''2'', mv_run_id = ''r2'', mv_source = ''runs:/r2/model'',
             current_stage = ''Production'', creation_timestamp = 1630000000000\<rparr>"

definition v_stag :: model_version where
  "v_stag = \<lparr>mv_version = ''3'', mv_run_id = ''r3'', mv_source = ''runs:/r3/model'',
             current_stage = ''Staging'', creation_timestamp = 1640000000000\<rparr>"

definition registered :: "string \<Rightarrow> model_version list \<Rightarrow> registered_model" where
  "registered n vs = \<lparr>rm_name = n, rm_tags = [], rm_description = Some ''a model'',
                       latest_versions = vs\<rparr>"

definition cfg0 :: config where
  "cfg0 = \<lparr>basepath = [], staging = False, tags = [], token = []\<rparr>"

definition iris_handler :: handler where
  "iris_handler =
     \<lparr>self_m = registered ''iris'' [v_none, v_prod, v_stag],
      name = ''iris'',
      model_version_source = ''runs:/r2/model'',
      run_id = ''r2'',
      work_folder = ''/cache/r2'',
      model_folder = ''/cache/r2/model'',
      port = 40000,
      input_example_data = [],
      version = ''2'',
      source = ''runs:/r2/model'',
      input_schema = [],
      output_schema = [TensorSpec (Some ''y'') ''int64'' [-1]] @ provenance_fields,
      description = Some ''a model'',
      creation = ''2021-08-26 17:46'',
      input_schema_class = [],
      output_schema_class =
        [(''y'', PList []), (''x__version'', PList [PInt 1]), (''x__mlflow_id'', PList [PStr ''A''])]\<rparr>"

text \<open>
  An interpreter without a digit limit, and a predictor whose result already has a
  field named \<open>x__version\<close>.
\<close>

definition python :: interpreter where
  "python = \<lparr>int_max_str_digits = 0,
             int_other = (\<lambda>s. Inl (ValueError (''invalid literal for int() with base 10: '' @ py_repr s)))\<rparr>"

definition colliding_predictor :: predictor where
  "colliding_predictor =
     \<lparr>np_array = Inr,
      astype = (\<lambda>a t. Inr a),
      predict = (\<lambda>inp. Inr (Columns [(''y'', NdArray (PList [PInt 0])),
                                        (''x__version'', Plain (PList [PInt 99]))]))\<rparr>"

text \<open>
  A server that serves \<open>iris\<close> at run \<open>r2\<close>, a newer Production version \<open>r4\<close>, and
  answers of the outside world: one where every step of a construction works and one
  where the artifact download fails.
\<close>

definition iris_route :: route where
  "iris_route = \<lparr>path = ''/iris'', http_method = GET, route_name = ''iris'',
                  needs_token = False, serves = Some ''r2''\<rparr>"

definition server0 :: server where
  "server0 = \<lparr>config = cfg0, full_cache_dir = Some ''/cache'',
               model_dict = [''iris'' \<mapsto> iris_handler], error_dict = Map.empty,
               routes = [iris_route], openapi_schema = True\<rparr>"

definition v_new :: model_version where
  "v_new = \<lparr>mv_version = ''4'', mv_run_id = ''r4'', mv_source = ''runs:/r4/model'',
            current_stage = ''Production'', creation_timestamp = 1650000000000\<rparr>"

definition setup_ok :: setup_world where
  "setup_ok = \<lparr>open_log = None, log_io = (\<lambda>t a. None), download_artifact = (\<lambda>t. None),
                requirements_txt =
                  (\<lambda>t. Some (Inr [''mlflow'' @ [CHR 0x0A], ''mylib==0.1'' @ [CHR 0x0A], ''numpy''])),
                default_pip_requirements = (\<lambda>t. Inr [''mlflow'']),
                code_libs = (\<lambda>t. [''/cache/r4/model/code/mylib'']),
                lib_requirements_exists = (\<lambda>t f. False),
                subprocess_run = (\<lambda>t argv cwd. Inr 0)\<rparr>"

definition ext_ok :: externals where
  "ext_ok = \<lparr>mkdir = None, model_folder_exists = False, setup_env = setup_ok,
              get_free_port = Inr 40001, start_server = None,
              load_metadata = Inr (Some [TensorSpec (Some ''x'') ''float64'' [-1, 4]],
                                   Some [TensorSpec (Some ''y'') ''int64'' [-1]]),
              empty_schema_truthy = True, get_input_example = [],
              format_creation = (\<lambda>ts. Inr ''2022-04-15 07:20''),
              example_prediction = [],
              create_input_class = None, create_output_class = None,
              add_api_route = None\<rparr>"

definition ext_download_fails :: "string \<Rightarrow> externals" where
  "ext_download_fails why =
     ext_ok\<lparr>setup_env := setup_ok\<lparr>download_artifact := (\<lambda>t. Some (Exn ''MlflowException'' why))\<rparr>\<rparr>"

definition world_of :: "exn + registered_model list \<Rightarrow> (registered_model \<Rightarrow> externals) \<Rightarrow> world" where
  "world_of listing x = \<lparr>list_registered_models = listing, construct = (\<lambda>m0 v. x m0)\<rparr>"




section \<open>Properties\<close>

lemma index0_filter_find:
  "find P xs = Some x \<Longrightarrow> index0 (filter P xs) = Inr x"
  by (induction xs) (auto simp: index0_def split: if_splits)

lemma find_None_filter: "find P xs = None \<Longrightarrow> filter P xs = []"
  by (induction xs) (auto split: if_splits)

lemma find_Some_filter: "find P xs = Some x \<Longrightarrow> filter P xs \<noteq> []"
  by (induction xs) (auto split: if_splits)

text \<open>
  C8: desired-version selection. With the staging preference set and a Staging version
  listed, the first Staging version is chosen; otherwise, with a Production version
  listed, the first Production version; otherwise the first listed version.
\<close>

theorem get_version_selection:
  "(staging cfg \<and> find (\<lambda>mm. current_stage mm = ''Staging'') (latest_versions m0) = Some v
      \<longrightarrow> get_version cfg m0 = Inr v)
   \<and> (\<not> (staging cfg \<and> (\<exists>mm \<in> set (latest_versions m0). current_stage mm = ''Staging''))
      \<and> find (\<lambda>mm. current_stage mm = ''Production'') (latest_versions m0) = Some v
      \<longrightarrow> get_version cfg m0 = Inr v)
   \<and> (\<not> (staging cfg \<and> (\<exists>mm \<in> set (latest_versions m0). current_stage mm = ''Staging''))
      \<and> (\<forall>mm \<in> set (latest_versions m0). current_stage mm \<noteq> ''Production'')
      \<and> latest_versions m0 = v # vs
      \<longrightarrow> get_version cfg m0 = Inr v)"
proof (intro conjI impI)
  assume a: "staging cfg \<and> find (\<lambda>mm. current_stage mm = ''Staging'') (latest_versions m0) = Some v"
  then have "filter (\<lambda>mm. current_stage mm = ''Staging'') (latest_versions m0) \<noteq> []"
    by (simp add: find_Some_filter)
  with a show "get_version cfg m0 = Inr v"
    by (simp add: get_version_def Let_def index0_filter_find)
next
  assume a: "\<not> (staging cfg \<and> (\<exists>mm \<in> set (latest_versions m0). current_stage mm = ''Staging''))
      \<and> find (\<lambda>mm. current_stage mm = ''Production'') (latest_versions m0) = Some v"
  then have ne: "filter (\<lambda>mm. current_stage mm = ''Production'') (latest_versions m0) \<noteq> []"
    by (simp add: find_Some_filter)
  from a have "\<not> staging cfg \<or> filter (\<lambda>mm. current_stage mm = ''Staging'') (latest_versions m0) = []"
    by (auto simp: filter_empty_conv)
  with a ne show "get_version cfg m0 = Inr v"
    by (auto simp: get_version_def Let_def index0_filter_find)
next
  assume a: "\<not> (staging cfg \<and> (\<exists>mm \<in> set (latest_versions m0). current_stage mm = ''Staging''))
      \<and> (\<forall>mm \<in> set (latest_versions m0). current_stage mm \<noteq> ''Production'')
      \<and> latest_versions m0 = v # vs"
  then have p: "filter (\<lambda>mm. current_stage mm = ''Production'') (latest_versions m0) = []"
    by (auto simp: filter_empty_conv)
  from a have "\<not> staging cfg \<or> filter (\<lambda>mm. current_stage mm = ''Staging'') (latest_versions m0) = []"
    by (auto simp: filter_empty_conv)
  with a p show "get_version cfg m0 = Inr v"
    by (auto simp: get_version_def Let_def index0_def)
qed

theorem get_version_selection_witness:
  "get_version (cfg0\<lparr>staging := True\<rparr>) (registered ''iris'' [v_none, v_prod, v_stag]) = Inr v_stag
   \<and> get_version cfg0 (registered ''iris'' [v_none, v_prod, v_stag]) = Inr v_prod
   \<and> get_version cfg0 (registered ''iris'' [v_none, v_stag]) = Inr v_none"
  using get_version_selection [of "cfg0\<lparr>staging := True\<rparr>" "registered ''iris'' [v_none, v_prod, v_stag]" v_stag]
    get_version_selection [of cfg0 "registered ''iris'' [v_none, v_prod, v_stag]" v_prod]
    get_version_selection [of cfg0 "registered ''iris'' [v_none, v_stag]" v_none "[v_stag]"]
  by (simp add: cfg0_def registered_def v_none_def v_prod_def v_stag_def)

text \<open>
  C10: \<open>GET /modelinfo/{name}\<close> answers the empty map for a name without a handler,
  and otherwise the handler's info map with its seven entries.
\<close>

theorem modelinfo_cases:
  "(model_dict s n = None \<longrightarrow> modelinfo s n = Map.empty)
   \<and> (model_dict s n = Some h \<longrightarrow>
        modelinfo s n = info h
        \<and> dom (info h) = {''name'', ''version'', ''latest_versions'', ''input'', ''output'',
                           ''description'', ''creation''}
        \<and> info h ''name'' = Some (IStr (name h))
        \<and> info h ''version'' = Some (IStr (version h))
        \<and> info h ''latest_versions'' = Some (IVersions (latest_versions (self_m h)))
        \<and> info h ''input'' = Some (ISchema (input_schema h))
        \<and> info h ''output'' = Some (ISchema (output_schema h))
        \<and> info h ''description'' = Some (IOptStr (description h))
        \<and> info h ''creation'' = Some (IStr (creation h)))"
  by (auto simp: modelinfo_def info_def)

theorem modelinfo_cases_witness:
  "modelinfo \<lparr>config = cfg0, full_cache_dir = None, model_dict = [''iris'' \<mapsto> iris_handler],
              error_dict = Map.empty, routes = [], openapi_schema = False\<rparr> ''wine'' = Map.empty
   \<and> modelinfo \<lparr>config = cfg0, full_cache_dir = None, model_dict = [''iris'' \<mapsto> iris_handler],
              error_dict = Map.empty, routes = [], openapi_schema = False\<rparr> ''iris'' ''version''
       = Some (IStr ''2'')"
  using modelinfo_cases [of "\<lparr>config = cfg0, full_cache_dir = None, model_dict = [''iris'' \<mapsto> iris_handler],
              error_dict = Map.empty, routes = [], openapi_schema = False\<rparr>" "''wine''"]
    modelinfo_cases [of "\<lparr>config = cfg0, full_cache_dir = None, model_dict = [''iris'' \<mapsto> iris_handler],
              error_dict = Map.empty, routes = [], openapi_schema = False\<rparr>" "''iris''" iris_handler]
  by (simp add: iris_handler_def)

subsection \<open>Conversion of the version and provenance\<close>

lemma digit_char: "(k::nat) < 10 \<Longrightarrow> (of_char (char_of (48 + k)) :: nat) = 48 + k"
  by simp

lemma is_digit_char: "(k::nat) < 10 \<Longrightarrow> is_digit (char_of (48 + k))"
  by (simp add: is_digit_def)

lemma dec_digits: "c \<in> set (dec n) \<Longrightarrow> is_digit c"
proof (induction n rule: dec.induct)
  case (1 n)
  show ?case
  proof (cases "n < 10")
    case True
    with "1.prems" show ?thesis by (simp add: dec.simps [of n] is_digit_char)
  next
    case False
    with "1.prems" "1.IH" show ?thesis
      by (auto simp: dec.simps [of n] is_digit_char)
  qed
qed

lemma dec_nonempty: "dec n \<noteq> []"
  by (subst dec.simps) simp

lemma parse_digits_dec:
  "parse_digits (dec n @ rest) b acc = parse_digits rest True (acc * 10 ^ length (dec n) + int n)"
proof (induction n arbitrary: rest b acc rule: dec.induct)
  case (1 n)
  show ?case
  proof (cases "n < 10")
    case True
    then show ?thesis
      by (simp add: dec.simps [of n] is_digit_char mult.commute)
  next
    case False
    have d: "dec n = dec (n div 10) @ [char_of (48 + n mod 10)]"
      using False by (simp add: dec.simps [of n])
    have "parse_digits (dec n @ rest) b acc
          = parse_digits (char_of (48 + n mod 10) # rest) True
              (acc * 10 ^ length (dec (n div 10)) + int (n div 10))"
      using "1.IH" [OF False] by (simp add: d)
    also have "\<dots> = parse_digits rest True
              (10 * (acc * 10 ^ length (dec (n div 10)) + int (n div 10)) + int (n mod 10))"
      by (simp add: is_digit_char)
    also have "10 * (acc * 10 ^ length (dec (n div 10)) + int (n div 10)) + int (n mod 10)
               = acc * 10 ^ length (dec n) + int n"
      by (simp add: d algebra_simps zdiv_int zmod_int)
    finally show ?thesis .
  qed
qed

lemma not_space_digit: "is_digit c \<Longrightarrow> \<not> is_space c"
  by (auto simp: is_digit_def is_space_def)

lemma strip_dec: "strip (dec n) = dec n"
proof -
  have h: "\<not> is_space (hd (dec n))"
    using dec_nonempty [of n] dec_digits [of "hd (dec n)" n] not_space_digit by simp
  have l: "\<not> is_space (hd (rev (dec n)))"
    using dec_nonempty [of n] dec_digits [of "last (dec n)" n] not_space_digit
    by (simp add: hd_rev)
  have "dropWhile is_space (dec n) = dec n"
    using h by (simp add: dropWhile_eq_self_iff)
  moreover have "dropWhile is_space (rev (dec n)) = rev (dec n)"
    using l by (simp add: dropWhile_eq_self_iff)
  ultimately show ?thesis by (simp add: strip_def)
qed

lemma dec_ascii: "\<not> list_ex (\<lambda>c. 128 \<le> (of_char c :: nat)) (dec n)"
  using dec_digits [of _ n] by (force simp: list_ex_iff is_digit_def)

lemma dec_all_digits: "filter is_digit (dec n) = dec n"
  using dec_digits [of _ n] by (simp add: filter_id_conv)

lemma dec_unsigned: "\<exists>c r. dec n = c # r \<and> c \<noteq> CHR ''-'' \<and> c \<noteq> CHR ''+''"
proof -
  obtain c r where cr: "dec n = c # r"
    using dec_nonempty [of n] by (cases "dec n") auto
  then have "is_digit c" using dec_digits [of c n] by simp
  then have "c \<noteq> CHR ''-'' \<and> c \<noteq> CHR ''+''" by (auto simp: is_digit_def)
  with cr show ?thesis by blast
qed

lemma py_int_dec:
  assumes "int_max_str_digits py = 0 \<or> length (dec n) \<le> int_max_str_digits py"
  shows "py_int py (dec n) = Inr (int n)"
proof -
  have limit: "\<not> (0 < int_max_str_digits py \<and> int_max_str_digits py < length (filter is_digit (dec n)))"
    using assms by (auto simp: dec_all_digits)
  have sign: "(case dec n of
                 [] \<Rightarrow> (False, dec n)
               | c # r \<Rightarrow> if c = CHR ''-'' then (True, r)
                          else if c = CHR ''+'' then (False, r)
                          else (False, dec n)) = (False, dec n)"
    using dec_unsigned [of n] by auto
  have digits: "parse_digits (dec n) False 0 = Some (int n)"
    using parse_digits_dec [of n "[]" False 0] by simp
  show ?thesis
    by (simp add: py_int_def dec_ascii limit strip_dec sign digits)
qed

lemma py_int_negative:
  assumes "int_max_str_digits py = 0 \<or> length (dec n) \<le> int_max_str_digits py"
  shows "py_int py (CHR ''-'' # dec n) = Inr (- int n)"
proof -
  have limit: "\<not> (0 < int_max_str_digits py \<and> int_max_str_digits py < length (filter is_digit (dec n)))"
    using assms by (auto simp: dec_all_digits)
  have minus: "\<not> is_digit (CHR ''-'')" "\<not> is_space (CHR ''-'')"
    by (simp_all add: is_digit_def is_space_def)
  have "\<not> is_space (hd (rev (dec n)))"
    using dec_nonempty [of n] dec_digits [of "last (dec n)" n] not_space_digit
    by (simp add: hd_rev)
  then have "dropWhile is_space (rev (dec n) @ ''-'') = rev (dec n) @ ''-''"
    using dec_nonempty [of n] by (simp add: dropWhile_eq_self_iff)
  then have strip: "strip (CHR ''-'' # dec n) = CHR ''-'' # dec n"
    using minus by (simp add: strip_def)
  have digits: "parse_digits (dec n) False 0 = Some (int n)"
    using parse_digits_dec [of n "[]" False 0] by simp
  show ?thesis
    using dec_ascii [of n] by (simp add: py_int_def limit minus strip digits)
qed

lemma parse_digits_chars:
  "parse_digits ds b acc = Some v \<Longrightarrow> c \<in> set ds \<Longrightarrow> is_digit c \<or> c = CHR ''_''"
  by (induction ds arbitrary: b acc) (auto split: if_splits)

lemma set_dropWhile: "set xs \<subseteq> set (dropWhile P xs) \<union> {x. P x}"
  by (induction xs) auto

lemma set_strip: "set s \<subseteq> set (strip s) \<union> {c. is_space c}"
proof -
  have "set (dropWhile is_space s) \<subseteq> set (strip s) \<union> {c. is_space c}"
    using set_dropWhile [of "rev (dropWhile is_space s)" is_space] by (simp add: strip_def)
  with set_dropWhile [of s is_space] show ?thesis by blast
qed

text \<open>
  Within the fragment that \<open>py_int\<close> decides itself, a string that converts consists of
  digits, underscores, whitespace and signs only.
\<close>

lemma py_int_accepts_only:
  assumes "py_int py s = Inr v"
    and "\<not> list_ex (\<lambda>c. 128 \<le> (of_char c :: nat)) s"
    and "int_max_str_digits py = 0 \<or> length (filter is_digit s) \<le> int_max_str_digits py"
    and "c \<in> set s"
  shows "is_digit c \<or> c = CHR ''_'' \<or> is_space c \<or> c = CHR ''-'' \<or> c = CHR ''+''"
proof -
  have limit: "\<not> (0 < int_max_str_digits py \<and> int_max_str_digits py < length (filter is_digit s))"
    using assms(3) by auto
  define ds where "ds = (case strip s of
                           [] \<Rightarrow> []
                         | c # r \<Rightarrow> if c = CHR ''-'' \<or> c = CHR ''+'' then r else strip s)"
  have fails: "py_int py s = Inl (ValueError (''invalid literal for int() with base 10: '' @ take 200 (py_repr s)))"
    if none: "parse_digits ds False 0 = None"
  proof (cases "strip s")
    case Nil
    then show ?thesis
      by (simp add: py_int_def assms(2) limit)
  next
    case (Cons a r)
    with none show ?thesis
      by (cases "a = CHR ''-''"; cases "a = CHR ''+''")
        (simp_all add: py_int_def ds_def assms(2) limit)
  qed
  have parsed: "\<exists>n. parse_digits ds False 0 = Some n"
    using assms(1) fails by (cases "parse_digits ds False 0") simp_all
  then obtain n where n: "parse_digits ds False 0 = Some n" ..
  have rest: "set (strip s) \<subseteq> set ds \<union> {CHR ''-'', CHR ''+''}"
  proof (cases "strip s")
    case Nil
    then show ?thesis by simp
  next
    case (Cons a r)
    then show ?thesis
      by (cases "a = CHR ''-'' \<or> a = CHR ''+''") (auto simp: ds_def)
  qed
  from assms(4) set_strip [of s] have "c \<in> set (strip s) \<or> is_space c" by blast
  with rest have "c \<in> set ds \<or> c = CHR ''-'' \<or> c = CHR ''+'' \<or> is_space c" by blast
  with parse_digits_chars [OF n, of c] show ?thesis by blast
qed

text \<open>
  \<open>int\<close> on strings that are not plain numerals: surrounding blanks, a sign and an
  underscore between digits are accepted; the separators \<open>0x1C\<close> to \<open>0x1F\<close> and a
  doubled underscore are not, and the message quotes the string as \<open>repr\<close> does.
\<close>

lemma py_int_examples:
  "py_int python '' -1_000 '' = Inr (- 1000)"
  "py_int python [CHR 0x1C, CHR ''5'', CHR 0x1F]
     = Inl (ValueError (''invalid literal for int() with base 10: '' @ [CHR 0x27, CHR 0x5C] @ ''x1c5'' @ [CHR 0x5C] @ ''x1f'' @ [CHR 0x27]))"
  "py_int python ''1__0'' = Inl (ValueError (''invalid literal for int() with base 10: '' @ [CHR 0x27] @ ''1__0'' @ [CHR 0x27]))"
  by (simp_all add: py_int_def python_def strip_def is_space_def is_digit_def py_repr_def
      repr_char_def hex_lower_def Let_def)

lemma dec_17: "dec 17 = ''17''"
  by (simp add: dec.simps [of 17] dec.simps [of "Suc 0"] char_of_eq_iff)

lemma apply_model_collision_eval:
  "apply_model python colliding_predictor (iris_handler\<lparr>version := ''17''\<rparr>) None =
     Inr ([''y'' \<mapsto> PList [PInt 0], ''x__version'' \<mapsto> PList [PInt 17],
           ''x__mlflow_id'' \<mapsto> PList [PStr ''r2'']])"
  by (simp add: apply_model_def colliding_predictor_def iris_handler_def python_def
      py_int_def strip_def is_space_def is_digit_def fun_eq_iff)

text \<open>
  C6: a successful \<open>apply_model\<close> returns a mapping whose \<open>x__version\<close> is the
  integer that \<open>int\<close> gives for the handler's version and whose \<open>x__mlflow_id\<close> is
  its run identifier, each in a one-element list, whatever the predictor returned under
  those names; for a handler whose version is the decimal numeral of \<open>n\<close> (within the
  interpreter's digit limit) the entry \<open>x__version\<close> is \<open>[n]\<close>.
\<close>

theorem apply_model_provenance:
  assumes "apply_model py p h data = Inr out"
  shows "(\<exists>v. py_int py (version h) = Inr v \<and> out ''x__version'' = Some (PList [PInt v]))
         \<and> out ''x__mlflow_id'' = Some (PList [PStr (run_id h)])
         \<and> (\<forall>n. version h = dec n
                  \<and> (int_max_str_digits py = 0 \<or> length (dec n) \<le> int_max_str_digits py)
                \<longrightarrow> out ''x__version'' = Some (PList [PInt (int n)]))"
proof -
  from assms obtain v where v: "py_int py (version h) = Inr v"
      "out ''x__version'' = Some (PList [PInt v])"
      "out ''x__mlflow_id'' = Some (PList [PStr (run_id h)])"
    by (auto simp: apply_model_def split: sum.splits if_splits option.splits)
  have "out ''x__version'' = Some (PList [PInt (int n)])"
    if "version h = dec n" "int_max_str_digits py = 0 \<or> length (dec n) \<le> int_max_str_digits py" for n
    using v(1,2) py_int_dec [OF that(2)] that(1) by simp
  with v show ?thesis by blast
qed

theorem apply_model_provenance_witness:
  "apply_model python colliding_predictor (iris_handler\<lparr>version := ''17''\<rparr>) None =
     Inr ([''y'' \<mapsto> PList [PInt 0], ''x__version'' \<mapsto> PList [PInt 17],
           ''x__mlflow_id'' \<mapsto> PList [PStr ''r2'']])
   \<and> version (iris_handler\<lparr>version := ''17''\<rparr>) = dec 17
   \<and> parse_output (Columns [(''y'', NdArray (PList [PInt 0])), (''x__version'', Plain (PList [PInt 99]))])
       = Inr [''x__version'' \<mapsto> PList [PInt 99], ''y'' \<mapsto> PList [PInt 0]]"
proof -
  let ?h = "iris_handler\<lparr>version := ''17''\<rparr>"
  let ?out = "[''y'' \<mapsto> PList [PInt 0], ''x__version'' \<mapsto> PList [PInt 17],
               ''x__mlflow_id'' \<mapsto> PList [PStr ''r2'']]"
  note provenance = apply_model_provenance [OF apply_model_collision_eval]
  have "version ?h = dec 17"
    by (simp add: dec_17)
  moreover have "int_max_str_digits python = 0"
    by (simp add: python_def)
  ultimately have "?out ''x__version'' = Some (PList [PInt (int 17)])"
    using provenance by blast
  moreover have "parse_output (Columns [(''y'', NdArray (PList [PInt 0])), (''x__version'', Plain (PList [PInt 99]))])
       = Inr [''x__version'' \<mapsto> PList [PInt 99], ''y'' \<mapsto> PList [PInt 0]]"
    by (simp add: fun_eq_iff)
  ultimately show ?thesis
    using apply_model_collision_eval dec_17 by simp
qed

subsection \<open>Synthesized examples\<close>

lemma sample_scalar: "dtype_sample dt = Some smp \<Longrightarrow> depth smp = 0"
  by (auto simp: dtype_sample_def split: if_splits)

lemma foldr_max_replicate: "(max (k::nat) ^^ n) 0 = (if n = 0 then 0 else k)"
  by (induction n) auto

lemma depth_replicate: "depth (PList (replicate n v)) = (if n = 0 then 1 else Suc (depth v))"
  by (simp add: foldr_max_replicate)

lemma set_level_replicate:
  "0 < n \<Longrightarrow> set (level (Suc i) (PList (replicate n v))) = set (level i v)"
  by (cases n) auto

lemma get_nested_shape_aux:
  assumes "dtype_sample dt = Some smp" and "sh \<noteq> []"
  shows "\<exists>v. get_nested dt sh = Inr v
           \<and> depth v = length sh
           \<and> (\<forall>i < length sh. \<forall>x \<in> set (level i v). \<exists>xs. x = PList xs
                  \<and> int (length xs) = (if Suc i = length sh then max 0 (sh ! i) else max 1 (sh ! i)))
           \<and> (\<forall>x \<in> set (level (length sh) v). x = smp)"
  using assms
proof (induction dt sh rule: get_nested.induct)
  case (1 dt)
  then show ?case by simp
next
  case (2 dt d)
  then show ?case by (auto simp: foldr_max_replicate sample_scalar)
next
  case (3 dt d v va)
  then obtain inner where inner: "get_nested dt (v # va) = Inr inner"
      "depth inner = length (v # va)"
      "\<forall>i < length (v # va). \<forall>x \<in> set (level i inner). \<exists>xs. x = PList xs
          \<and> int (length xs) = (if Suc i = length (v # va) then max 0 ((v # va) ! i) else max 1 ((v # va) ! i))"
      "\<forall>x \<in> set (level (length (v # va)) inner). x = smp"
    by auto
  let ?k = "nat (max 1 d)"
  let ?res = "PList (replicate ?k inner)"
  have k: "0 < ?k" by simp
  have r: "get_nested dt (d # v # va) = Inr ?res" using inner(1) by simp
  have dp: "depth ?res = length (d # v # va)"
  proof -
    have "depth ?res = Suc (depth inner)"
      using k by (subst depth_replicate) simp
    with inner(2) show ?thesis by simp
  qed
  have lv: "\<forall>x \<in> set (level (length (d # v # va)) ?res). x = smp"
    using inner(4) set_level_replicate [OF k, of "length (v # va)" inner] by simp
  have ln: "\<exists>xs. x = PList xs \<and> int (length xs) =
              (if Suc i = length (d # v # va) then max 0 ((d # v # va) ! i) else max 1 ((d # v # va) ! i))"
    if "i < length (d # v # va)" "x \<in> set (level i ?res)" for i x
  proof (cases i)
    case 0
    with that show ?thesis by simp
  next
    case (Suc j)
    with that have "j < length (v # va)" "x \<in> set (level j inner)"
      using set_level_replicate [OF k, of j inner] by auto
    with inner(3) Suc show ?thesis by auto
  qed
  show ?case
    apply (rule exI [of _ ?res])
    using r dp lv ln by blast
qed

lemma dtype_sample_table:
  assumes "dtype_sample dt = Some smp"
  shows "dt \<in> {''float64'', ''float32''} \<and> smp = PFloat ''1.234''
         \<or> dt \<in> {''int'', ''int64'', ''int32''} \<and> smp = PInt 1
         \<or> dt = ''str'' \<and> smp = PStr ''A''
         \<or> dt = ''object'' \<and> smp = PStr ''?''"
  using assms by (auto simp: dtype_sample_def split: if_splits)

text \<open>
  C5 (as amended): for a tensor field whose dtype is in the sample table and whose shape
  \<open>[d0, ..., d(n-1)]\<close> has \<open>n \<ge> 1\<close> entries, the synthesized example has nesting depth
  \<open>n\<close>; every list at an outer depth \<open>i < n - 1\<close> has length \<open>max 1 d\<^sub>i\<close>, every
  innermost list has length \<open>max 0 d\<^sub>n\<^sub>-\<^sub>1\<close> (the source writes \<open>[sample] * shape[0]\<close>
  there, without the minimum of 1); every leaf is the dtype's sample, which is 1.234
  for float64 and float32, 1 for int, int64 and int32, \<open>"A"\<close> for str and \<open>"?"\<close> for
  object.
\<close>

theorem get_nested_shape:
  assumes "dtype_sample dt = Some smp" and "sh \<noteq> []"
  shows "\<exists>v. get_example_el (TensorSpec n dt sh) = Inr v
           \<and> depth v = length sh
           \<and> (\<forall>i < length sh. \<forall>x \<in> set (level i v). \<exists>xs. x = PList xs
                  \<and> int (length xs) = (if Suc i = length sh then max 0 (sh ! i) else max 1 (sh ! i)))
           \<and> (\<forall>x \<in> set (level (length sh) v). x = smp)
           \<and> (dt \<in> {''float64'', ''float32''} \<and> smp = PFloat ''1.234''
               \<or> dt \<in> {''int'', ''int64'', ''int32''} \<and> smp = PInt 1
               \<or> dt = ''str'' \<and> smp = PStr ''A''
               \<or> dt = ''object'' \<and> smp = PStr ''?'')"
  using get_nested_shape_aux [OF assms] dtype_sample_table [OF assms(1)]
  by (simp only: get_example_el.simps) blast

theorem get_nested_shape_witness:
  "dtype_sample ''float32'' = Some (PFloat ''1.234'') \<and> [-1, 2 :: int] \<noteq> []
   \<and> get_example_el (TensorSpec (Some ''x'') ''float32'' [-1, 2])
       = Inr (PList [PList [PFloat ''1.234'', PFloat ''1.234'']])
   \<and> depth (PList [PList [PFloat ''1.234'', PFloat ''1.234'']]) = 2"
  using get_nested_shape [of "''float32''" "PFloat ''1.234''" "[-1, 2]" "Some ''x''"]
  by (simp add: dtype_sample_def numeral_2_eq_2)

text \<open>
  C5 as stated fails at the innermost depth: for the shape \<open>[0]\<close> the example is the
  empty list, whose length is not \<open>max 1 0\<close>.
\<close>

theorem get_nested_innermost_counterexample:
  "get_example_el (TensorSpec (Some ''x'') ''int64'' [0]) = Inr (PList [])
   \<and> int (length ([] :: pyval list)) \<noteq> max 1 0"
  by (simp add: dtype_sample_def)

subsection \<open>One iteration of the reconciliation loop\<close>

lemma BaseHandler_init_Inr:
  "BaseHandler_init x s m0 mv = (acts, Inr (h, s2)) \<Longrightarrow>
     s2 = register_route s h \<and> run_id h = mv_run_id mv \<and> name h = rm_name m0
     \<and> version h = mv_version mv \<and> self_m h = m0"
  by (auto simp: BaseHandler_init_def update_schema_classes_def Let_def
      split: option.splits sum.splits if_splits prod.splits)

lemma update_model_up_to_date:
  "up_to_date s m0 \<Longrightarrow> update_model w s m0 = (s, [], None)"
  by (auto simp: up_to_date_def update_model_def Let_def split: sum.splits option.splits)

text \<open>The possible results of one iteration of the loop.\<close>

lemma update_model_cases:
  assumes "update_model w s m0 = (s', t, r)"
  obtains
    (raised_early) ex where "get_version (config s) m0 = Inl ex" "s' = s" "t = []" "r = Some ex"
  | (skipped) "up_to_date s m0" "s' = s" "t = []" "r = None"
  | (raised_delete) rs ex where "s' = s\<lparr>routes := rs\<rparr>" "t = []" "r = Some ex"
  | (built) mv rs acts h where "get_version (config s) m0 = Inr mv"
      "del_routes (route_indices (basepath (config s) @ ''/'' @ quote_plus (rm_name m0)) (routes s)) (routes s) = (rs, None)"
      "BaseHandler_init (construct w m0 mv) (s\<lparr>routes := rs\<rparr>) m0 mv = (acts, Inr (h, register_route (s\<lparr>routes := rs\<rparr>) h))"
      "s' = (register_route (s\<lparr>routes := rs\<rparr>) h)\<lparr>model_dict := (model_dict s)(quote_plus (rm_name m0) \<mapsto> h),
                 error_dict := (error_dict s)(quote_plus (rm_name m0) := None)\<rparr>"
      "t = [\<lparr>attempt_name = quote_plus (rm_name m0), attempt_run = mv_run_id mv, provisioned = acts, succeeded = True\<rparr>]"
      "r = None" "run_id h = mv_run_id mv"
  | (failed) mv rs acts ex where "get_version (config s) m0 = Inr mv"
      "del_routes (route_indices (basepath (config s) @ ''/'' @ quote_plus (rm_name m0)) (routes s)) (routes s) = (rs, None)"
      "BaseHandler_init (construct w m0 mv) (s\<lparr>routes := rs\<rparr>) m0 mv = (acts, Inl ex)"
      "s' = s\<lparr>routes := rs, error_dict := (error_dict s)(''name'' \<mapsto> str ex)\<rparr>"
      "t = [\<lparr>attempt_name = quote_plus (rm_name m0), attempt_run = mv_run_id mv, provisioned = acts, succeeded = False\<rparr>]"
      "r = None"
proof (cases "get_version (config s) m0")
  case (Inl ex)
  with assms have "s' = s" "t = []" "r = Some ex"
    by (auto simp: update_model_def Let_def)
  with Inl show ?thesis using raised_early by blast
next
  case (Inr mv)
  show ?thesis
  proof (cases "up_to_date s m0")
    case True
    from assms update_model_up_to_date [OF True, of w] have "s' = s" "t = []" "r = None"
      by simp_all
    with True show ?thesis using skipped by blast
  next
    case False
    obtain rs dr where del: "del_routes (route_indices (basepath (config s) @ ''/'' @ quote_plus (rm_name m0)) (routes s)) (routes s) = (rs, dr)"
      by (cases "del_routes (route_indices (basepath (config s) @ ''/'' @ quote_plus (rm_name m0)) (routes s)) (routes s)")
    show ?thesis
    proof (cases dr)
      case (Some ex)
      with assms Inr False del have "s' = s\<lparr>routes := rs\<rparr>" "t = []" "r = Some ex"
        by (auto simp: update_model_def up_to_date_def Let_def split: option.splits if_splits)
      then show ?thesis using raised_delete by blast
    next
      case None
      obtain acts res where bi: "BaseHandler_init (construct w m0 mv) (s\<lparr>routes := rs\<rparr>) m0 mv = (acts, res)"
        by (cases "BaseHandler_init (construct w m0 mv) (s\<lparr>routes := rs\<rparr>) m0 mv")
      show ?thesis
      proof (cases res)
        case (Inl ex)
        with assms Inr False del None bi
        have "s' = s\<lparr>routes := rs, error_dict := (error_dict s)(''name'' \<mapsto> str ex)\<rparr>"
          "t = [\<lparr>attempt_name = quote_plus (rm_name m0), attempt_run = mv_run_id mv, provisioned = acts, succeeded = False\<rparr>]"
          "r = None"
          by (auto simp: update_model_def up_to_date_def Let_def split: option.splits if_splits)
        with Inr del None bi Inl show ?thesis using failed by blast
      next
        case (Inr hs)
        obtain h s2 where hs: "hs = (h, s2)" by (cases hs)
        from BaseHandler_init_Inr [OF bi [unfolded Inr hs]]
        have s2: "s2 = register_route (s\<lparr>routes := rs\<rparr>) h" and run: "run_id h = mv_run_id mv" by auto
        from assms \<open>get_version (config s) m0 = Inr mv\<close> False del None bi Inr hs s2
        have "s' = (register_route (s\<lparr>routes := rs\<rparr>) h)\<lparr>model_dict := (model_dict s)(quote_plus (rm_name m0) \<mapsto> h),
                 error_dict := (error_dict s)(quote_plus (rm_name m0) := None)\<rparr>"
          "t = [\<lparr>attempt_name = quote_plus (rm_name m0), attempt_run = mv_run_id mv, provisioned = acts, succeeded = True\<rparr>]"
          "r = None"
          by (auto simp: update_model_def up_to_date_def Let_def register_route_def split: option.splits if_splits)
        with \<open>get_version (config s) m0 = Inr mv\<close> del None bi Inr hs s2 run show ?thesis using built by blast
      qed
    qed
  qed
qed

subsection \<open>The registry listing\<close>

lemma update_model_server_key:
  assumes "update_model w s m0 = (s', t, r)" and "error_dict s ''server'' = None"
  shows "error_dict s' ''server'' = None"
  using assms(1)
proof (cases rule: update_model_cases)
  case (built mv rs acts h)
  with assms(2) show ?thesis by (simp add: register_route_def)
next
  case (failed mv rs acts ex)
  with assms(2) show ?thesis by simp
qed (use assms(2) in simp_all)

lemma update_loop_server_key:
  "update_loop w s ms = (s', t, r) \<Longrightarrow> error_dict s ''server'' = None
     \<Longrightarrow> error_dict s' ''server'' = None"
proof (induction ms arbitrary: s s' t r)
  case Nil
  then show ?case by simp
next
  case (Cons m0 ms)
  obtain s1 t1 r1 where st: "update_model w s m0 = (s1, t1, r1)"
    by (cases "update_model w s m0")
  have k1: "error_dict s1 ''server'' = None"
    using update_model_server_key [OF st Cons.prems(2)] .
  show ?case
  proof (cases r1)
    case None
    obtain s2 t2 r2 where lp: "update_loop w s1 ms = (s2, t2, r2)"
      by (cases "update_loop w s1 ms")
    with Cons.prems(1) st None have "s' = s2" by simp
    with Cons.IH [OF lp k1] show ?thesis by simp
  next
    case (Some ex)
    with Cons.prems(1) st have "s' = s1" by simp
    with k1 show ?thesis by simp
  qed
qed

text \<open>
  C7: when the registry listing fails, the pass records the message under the key
  \<open>server\<close>, leaves the handler map and the routes as they were, attempts no
  construction and returns; when the listing succeeds, the key \<open>server\<close> is not in
  the error map after the pass.
\<close>

theorem update_models_listing:
  "(list_registered_models w = Inl ex \<longrightarrow>
      update_models w s
        = (s\<lparr>error_dict := (error_dict s)(''server'' \<mapsto> str ex), openapi_schema := False\<rparr>, [], None)
      \<and> model_dict (fst (update_models w s)) = model_dict s
      \<and> routes (fst (update_models w s)) = routes s
      \<and> error_dict (fst (update_models w s)) = (error_dict s)(''server'' \<mapsto> str ex))
   \<and> (list_registered_models w = Inr ms \<longrightarrow>
      error_dict (fst (update_models w s)) ''server'' = None)"
proof (intro conjI impI)
  assume a: "list_registered_models w = Inr ms"
  let ?s0 = "s\<lparr>error_dict := (error_dict s)(''server'' := None)\<rparr>"
  obtain s1 t r where lp: "update_loop w ?s0 ms = (s1, t, r)"
    by (cases "update_loop w ?s0 ms")
  have "error_dict s1 ''server'' = None"
    using update_loop_server_key [OF lp] by simp
  with a lp show "error_dict (fst (update_models w s)) ''server'' = None"
    by (cases r) (simp_all add: update_models_def)
qed (simp_all add: update_models_def)

theorem update_models_listing_witness:
  "update_models (world_of (Inl (Exn ''ConnectionError'' ''registry unreachable'')) (\<lambda>m. ext_ok)) server0
     = (server0\<lparr>error_dict := [''server'' \<mapsto> ''registry unreachable''], openapi_schema := False\<rparr>, [], None)
   \<and> routes (fst (update_models (world_of (Inl (Exn ''ConnectionError'' ''registry unreachable'')) (\<lambda>m. ext_ok)) server0))
       = [iris_route]
   \<and> error_dict (fst (update_models (world_of (Inr [registered ''iris'' [v_none, v_prod]]) (\<lambda>m. ext_ok))
                         (server0\<lparr>error_dict := [''server'' \<mapsto> ''registry unreachable'']\<rparr>))) ''server'' = None"
  using update_models_listing [where w = "world_of (Inl (Exn ''ConnectionError'' ''registry unreachable'')) (\<lambda>m. ext_ok)"
      and ex = "Exn ''ConnectionError'' ''registry unreachable''" and s = server0]
    update_models_listing [where w = "world_of (Inr [registered ''iris'' [v_none, v_prod]]) (\<lambda>m. ext_ok)"
      and ms = "[registered ''iris'' [v_none, v_prod]]"
      and s = "server0\<lparr>error_dict := [''server'' \<mapsto> ''registry unreachable'']\<rparr>"]
  by (simp add: world_of_def server0_def)

subsection \<open>Route deletion\<close>





subsection \<open>A failed construction\<close>





text \<open>
  A handler that was built is stored under the quoted name of its model, while its own
  name, and with it the path of its route, is the raw name.
\<close>

lemma built_route_under_raw_name:
  assumes "update_model w s m0 = (s', [a], r)" and "succeeded a"
  shows "\<exists>h. model_dict s' (quote_plus (rm_name m0)) = Some h \<and> name h = rm_name m0
           \<and> routes s' \<noteq> []
           \<and> path (last (routes s')) = basepath (config s) @ ''/'' @ rm_name m0
           \<and> serves (last (routes s')) = Some (run_id h)"
  using assms(1)
proof (cases rule: update_model_cases)
  case (built mv rs acts h)
  from BaseHandler_init_Inr [OF built(3)] have "name h = rm_name m0" by simp
  with built(4) show ?thesis by (simp add: register_route_def)
next
  case (failed mv rs acts ex)
  with assms(2) show ?thesis by simp
qed simp_all

text \<open>
  With two routes at the path the loop, which deletes by the indices it computed
  beforehand, leaves one of them and deletes the route that follows them.
\<close>

lemma del_routes_duplicate_eval:
  "del_routes (route_indices ''/iris'' [iris_route, iris_route, iris_route\<lparr>path := ''/other''\<rparr>])
     [iris_route, iris_route, iris_route\<lparr>path := ''/other''\<rparr>] = ([iris_route], None)"
  by (simp add: route_indices_def iris_route_def)


subsection \<open>Evaluations on the example data\<close>

lemma iris_handler_run: "run_id iris_handler = ''r2''"
  by (simp add: iris_handler_def)

lemmas fixtures = server0_def cfg0_def iris_route_def registered_def v_new_def v_none_def v_prod_def
  world_of_def ext_download_fails_def ext_ok_def setup_ok_def iris_handler_run



lemmas pass_defs = update_models_def update_model_def get_version_def index0_def Let_def
  route_indices_def BaseHandler_init_def setup_model_def log_op_def download_def
  run_process_def
  path_join_def basename_def quote_plus_def quote_char_def always_safe_def

lemmas build_defs = update_schema_classes_def provenance_fields_def dtype_sample_def
  register_route_def strip_requirements_def rstrip_newline_def


lemma failed_pass_eval:
  "update_models (world_of (Inr [registered ''iris'' [v_none, v_new]])
                               (\<lambda>m. ext_download_fails ''no artifact'')) server0
   = (server0\<lparr>routes := [], error_dict := [''name'' \<mapsto> ''no artifact''], openapi_schema := False\<rparr>,
      [\<lparr>attempt_name = ''iris'', attempt_run = ''r4'',
        provisioned = [Write (''Start download /cache/r4/model'' @ [CHR 0x0A]), Flush,
                       Download ''runs:/r4/model'' ''/cache/r4''],
        succeeded = False\<rparr>], None)"
  by (simp add: fixtures pass_defs)






text \<open>
  C2 on two models whose constructions both fail in one pass: the error map ends with
  the single key \<open>name\<close>, holding the message of the second failure; neither model's
  own name is a key.
\<close>

theorem error_key_is_literal_name:
  "map attempt_name (fst (snd (update_models (world_of (Inr [registered ''wine'' [v_prod], registered ''beer'' [v_new]])
                               (\<lambda>m. ext_download_fails (rm_name m))) server0))) = [''wine'', ''beer'']
   \<and> map succeeded (fst (snd (update_models (world_of (Inr [registered ''wine'' [v_prod], registered ''beer'' [v_new]])
                               (\<lambda>m. ext_download_fails (rm_name m))) server0))) = [False, False]
   \<and> error_dict (fst (update_models (world_of (Inr [registered ''wine'' [v_prod], registered ''beer'' [v_new]])
                               (\<lambda>m. ext_download_fails (rm_name m))) server0)) = [''name'' \<mapsto> ''beer'']"
  by (simp add: fixtures pass_defs)

text \<open>
  C9 as stated fails after a pass whose construction failed: the second pass against
  the same registry listing downloads the artifact again.
\<close>

theorem second_pass_reprovisions_counterexample:
  "fst (snd (update_models (world_of (Inr [registered ''iris'' [v_none, v_new]])
                               (\<lambda>m. ext_download_fails ''no artifact''))
        (fst (update_models (world_of (Inr [registered ''iris'' [v_none, v_new]])
                               (\<lambda>m. ext_download_fails ''no artifact'')) server0))))
   = [\<lparr>attempt_name = ''iris'', attempt_run = ''r4'',
        provisioned = [Write (''Start download /cache/r4/model'' @ [CHR 0x0A]), Flush,
                       Download ''runs:/r4/model'' ''/cache/r4''],
        succeeded = False\<rparr>]"
  by (simp add: failed_pass_eval) (simp add: fixtures pass_defs)

subsection \<open>Provisioning and exit statuses\<close>

lemma log_op_status: "log_op (w\<lparr>subprocess_run := g\<rparr>) a = log_op w a"
  by (simp add: log_op_def fun_eq_iff)

lemma download_status: "download (w\<lparr>subprocess_run := g\<rparr>) uri out = download w uri out"
  by (simp add: download_def fun_eq_iff)

lemma run_process_status:
  "run_process (w\<lparr>subprocess_run := (\<lambda>t argv cwd. case subprocess_run w t argv cwd of
                                         Inl ex \<Rightarrow> Inl ex | Inr st \<Rightarrow> Inr (f t argv cwd st))\<rparr>) argv cwd
   = run_process w argv cwd"
  by (simp add: run_process_def fun_eq_iff split: sum.splits)

lemma install_libs_status:
  "install_libs (w\<lparr>subprocess_run := (\<lambda>t argv cwd. case subprocess_run w t argv cwd of
                                         Inl ex \<Rightarrow> Inl ex | Inr st \<Rightarrow> Inr (f t argv cwd st))\<rparr>) mf libs t0
   = install_libs w mf libs t0"
  by (induction libs arbitrary: t0)
    (simp_all add: Let_def log_op_status run_process_status cong: prod.case_cong option.case_cong)

text \<open>
  C3 (as amended): \<open>_setup_model\<close> never inspects an exit status. Replacing the return
  codes of the external processes by any others changes neither the actions that
  provisioning performs nor whether, and with what exception, it ends; and a process
  that completes, with whatever return code, raises nothing.
\<close>

theorem setup_model_status_unchecked:
  "setup_model (w\<lparr>subprocess_run := (\<lambda>t argv cwd. case subprocess_run w t argv cwd of
                                         Inl ex \<Rightarrow> Inl ex | Inr st \<Rightarrow> Inr (f t argv cwd st))\<rparr>) src wdir mf
     = setup_model w src wdir mf
   \<and> (subprocess_run w t argv cwd = Inr st \<longrightarrow> run_process w argv cwd t = (t @ [Run argv cwd], None))"
proof
  show "setup_model (w\<lparr>subprocess_run := (\<lambda>t argv cwd. case subprocess_run w t argv cwd of
                                         Inl ex \<Rightarrow> Inl ex | Inr st \<Rightarrow> Inr (f t argv cwd st))\<rparr>) src wdir mf
     = setup_model w src wdir mf"
    by (simp add: setup_model_def Let_def install_libs_status log_op_status download_status
        run_process_status cong: option.case_cong sum.case_cong)
  show "subprocess_run w t argv cwd = Inr st \<longrightarrow> run_process w argv cwd t = (t @ [Run argv cwd], None)"
    by (simp add: run_process_def)
qed

text \<open>
  C3 as stated fails: with every process ending in status 1, among them
  \<open>pip install\<close>, provisioning still runs each later step and returns normally.
\<close>

theorem setup_model_ignores_status_counterexample:
  "subprocess_run (setup_ok\<lparr>subprocess_run := (\<lambda>t argv cwd. Inr 1)\<rparr>)
       [Write (''Start download /cache/r4/model'' @ [CHR 0x0A]), Flush,
        Download ''runs:/r4/model'' ''/cache/r4'',
        Write (''End download /cache/r4/model'' @ [CHR 0x0A]), Flush,
        Run [''python'', ''-m'', ''venv'', ''env''] ''/cache/r4/model'', Flush,
        Write (''Install req:'' @ [CHR 0x0A]), Write (''mlflow'' @ [CHR 0x0A]), Write (''numpy'' @ [CHR 0x0A]),
        Flush]
       [''/cache/r4/model/./env/Scripts/pip'', ''install'', ''mlflow'', ''numpy''] ''/cache/r4/model'' = Inr 1
   \<and> setup_model (setup_ok\<lparr>subprocess_run := (\<lambda>t argv cwd. Inr 1)\<rparr>)
        ''runs:/r4/model'' ''/cache/r4'' ''/cache/r4/model''
     = ([Write (''Start download /cache/r4/model'' @ [CHR 0x0A]), Flush,
         Download ''runs:/r4/model'' ''/cache/r4'',
         Write (''End download /cache/r4/model'' @ [CHR 0x0A]), Flush,
         Run [''python'', ''-m'', ''venv'', ''env''] ''/cache/r4/model'', Flush,
         Write (''Install req:'' @ [CHR 0x0A]), Write (''mlflow'' @ [CHR 0x0A]), Write (''numpy'' @ [CHR 0x0A]),
         Flush,
         Run [''/cache/r4/model/./env/Scripts/pip'', ''install'', ''mlflow'', ''numpy''] ''/cache/r4/model'',
         Flush, Flush,
         Run [''/cache/r4/model/./env/Scripts/python'', ''./setup.py'', ''build'', ''install'']
             ''/cache/r4/model/code/mylib'',
         Flush, Close],
        None)"
  by (simp add: setup_ok_def setup_model_def Let_def path_join_def basename_def
      strip_requirements_def rstrip_newline_def log_op_def download_def run_process_def)

theorem setup_model_status_unchecked_witness:
  "setup_model (setup_ok\<lparr>subprocess_run := (\<lambda>t argv cwd. Inr 1)\<rparr>)
        ''runs:/r4/model'' ''/cache/r4'' ''/cache/r4/model''
     = setup_model setup_ok ''runs:/r4/model'' ''/cache/r4'' ''/cache/r4/model''
   \<and> subprocess_run (setup_ok\<lparr>subprocess_run := (\<lambda>t argv cwd. Inr 1)\<rparr>) [Flush]
        [''python'', ''-m'', ''venv'', ''env''] ''/cache/r4/model'' = Inr 1
   \<and> run_process (setup_ok\<lparr>subprocess_run := (\<lambda>t argv cwd. Inr 1)\<rparr>)
        [''python'', ''-m'', ''venv'', ''env''] ''/cache/r4/model'' [Flush]
     = ([Flush, Run [''python'', ''-m'', ''venv'', ''env''] ''/cache/r4/model''], None)"
  using setup_model_status_unchecked [where w = setup_ok and f = "\<lambda>t argv cwd st. 1"
      and src = "''runs:/r4/model''" and wdir = "''/cache/r4''" and mf = "''/cache/r4/model''"]
    setup_model_status_unchecked [where w = "setup_ok\<lparr>subprocess_run := (\<lambda>t argv cwd. Inr 1)\<rparr>"
      and t = "[Flush]" and argv = "[''python'', ''-m'', ''venv'', ''env'']"
      and cwd = "''/cache/r4/model''" and st = 1]
  by (simp add: setup_ok_def)

subsection \<open>Quoted names\<close>

lemma hex_digit_inj:
  assumes "hex_digit a = hex_digit b" and "a < 16" and "b < 16"
  shows "a = b"
proof -
  have d: "distinct ''0123456789ABCDEF''" by simp
  have l: "length ''0123456789ABCDEF'' = 16" by simp
  from assms have "''0123456789ABCDEF'' ! a = ''0123456789ABCDEF'' ! b"
    by (simp add: hex_digit_def)
  with d l assms(2,3) show ?thesis
    by (metis nth_eq_iff_index_eq)
qed

lemma of_char_div_16: "(of_char c :: nat) div 16 < 16"
proof -
  have "(of_char c :: nat) mod 256 < 256" by (rule mod_less_divisor) simp
  then have "(of_char c :: nat) < 16 * 16" by simp
  then show ?thesis by (rule less_mult_imp_div_less)
qed

lemma quote_char_escape_inj:
  assumes "hex_digit (of_char a div 16) = hex_digit (of_char b div 16)"
    and "hex_digit (of_char a mod 16) = hex_digit (of_char b mod 16)"
  shows "a = b"
proof -
  have hi: "(of_char a :: nat) div 16 = of_char b div 16"
    using assms(1) of_char_div_16 hex_digit_inj by blast
  have lo: "(of_char a :: nat) mod 16 = of_char b mod 16"
    using assms(2) hex_digit_inj [of "of_char a mod 16" "of_char b mod 16"] by simp
  have "(of_char a :: nat) = of_char a div 16 * 16 + of_char a mod 16"
    by simp
  also have "\<dots> = of_char b div 16 * 16 + of_char b mod 16"
    by (simp only: hi lo)
  also have "\<dots> = of_char b"
    by simp
  finally show ?thesis by simp
qed

lemma not_safe: "\<not> always_safe (CHR ''+'')" "\<not> always_safe (CHR ''%'')"
  by (simp_all add: always_safe_def)

lemma quote_char_prefix_free:
  assumes "quote_char a @ xs = quote_char b @ ys"
  shows "a = b \<and> xs = ys"
proof -
  consider (sp) "a = CHR '' ''" | (safe) "a \<noteq> CHR '' ''" "always_safe a"
    | (esc) "a \<noteq> CHR '' ''" "\<not> always_safe a" by blast
  then show ?thesis
  proof cases
    case sp
    with assms not_safe show ?thesis
      by (auto simp: quote_char_def split: if_splits)
  next
    case safe
    with assms not_safe show ?thesis
      by (auto simp: quote_char_def split: if_splits)
  next
    case esc
    with assms not_safe show ?thesis
      by (auto simp: quote_char_def split: if_splits dest: quote_char_escape_inj)
  qed
qed

lemma quote_char_nonempty: "quote_char c \<noteq> []"
  by (simp add: quote_char_def)

lemma quote_plus_inj: "quote_plus a = quote_plus b \<Longrightarrow> a = b"
proof (induction a arbitrary: b)
  case Nil
  then show ?case by (cases b) (simp_all add: quote_plus_def quote_char_nonempty)
next
  case (Cons x xs)
  show ?case
  proof (cases b)
    case Nil
    with Cons.prems show ?thesis by (simp add: quote_plus_def quote_char_nonempty)
  next
    case (Cons y ys)
    with Cons.prems have "quote_char x @ quote_plus xs = quote_char y @ quote_plus ys"
      by (simp add: quote_plus_def)
    then have "x = y \<and> quote_plus xs = quote_plus ys"
      by (rule quote_char_prefix_free)
    with Cons.IH Cons show ?thesis by simp
  qed
qed

lemma distinct_quoted:
  "distinct (map rm_name ms) \<Longrightarrow> distinct (map (\<lambda>m. quote_plus (rm_name m)) ms)"
proof -
  assume "distinct (map rm_name ms)"
  moreover have "inj_on quote_plus (set (map rm_name ms))"
    by (rule inj_onI) (rule quote_plus_inj)
  ultimately have "distinct (map quote_plus (map rm_name ms))"
    by (simp only: distinct_map)
  then show ?thesis by (simp add: o_def)
qed

subsection \<open>A second pass\<close>

lemma up_to_date_frame:
  "config s' = config s \<Longrightarrow>
   model_dict s' (quote_plus (rm_name m1)) = model_dict s (quote_plus (rm_name m1)) \<Longrightarrow>
   up_to_date s' m1 = up_to_date s m1"
  by (simp add: up_to_date_def cong: sum.case_cong option.case_cong)

lemma update_model_establishes:
  assumes "update_model w s m0 = (s', t, None)" and "list_all succeeded t"
  shows "up_to_date s' m0"
  using assms(1)
proof (cases rule: update_model_cases)
  case skipped
  then show ?thesis by simp
next
  case (built mv rs acts h)
  then show ?thesis by (simp add: up_to_date_def register_route_def)
next
  case (failed mv rs acts ex)
  with assms(2) show ?thesis by simp
qed simp_all

lemma update_model_preserves:
  assumes "update_model w s m0 = (s', t, r)" and "up_to_date s m1"
    and "quote_plus (rm_name m1) \<noteq> quote_plus (rm_name m0)"
  shows "up_to_date s' m1"
proof -
  have "config s' = config s \<and> model_dict s' (quote_plus (rm_name m1)) = model_dict s (quote_plus (rm_name m1))"
    using assms(1)
    by (cases rule: update_model_cases) (use assms(3) in \<open>simp_all add: register_route_def\<close>)
  with assms(2) up_to_date_frame [of s' s m1] show ?thesis by simp
qed

lemma update_loop_preserves:
  "update_loop w s ms = (s', t, r) \<Longrightarrow> up_to_date s m1 \<Longrightarrow>
   quote_plus (rm_name m1) \<notin> set (map (\<lambda>m. quote_plus (rm_name m)) ms) \<Longrightarrow>
   up_to_date s' m1"
proof (induction ms arbitrary: s s' t r)
  case Nil
  then show ?case by simp
next
  case (Cons m0 ms)
  obtain s1 t1 r1 where st: "update_model w s m0 = (s1, t1, r1)"
    by (cases "update_model w s m0")
  have ne: "quote_plus (rm_name m1) \<noteq> quote_plus (rm_name m0)"
    and rest: "quote_plus (rm_name m1) \<notin> set (map (\<lambda>m. quote_plus (rm_name m)) ms)"
    using Cons.prems(3) by auto
  have u1: "up_to_date s1 m1"
    using update_model_preserves [OF st Cons.prems(2) ne] .
  show ?case
  proof (cases r1)
    case None
    obtain s2 t2 r2 where lp: "update_loop w s1 ms = (s2, t2, r2)"
      by (cases "update_loop w s1 ms")
    with Cons.prems(1) st None have "s' = s2" by simp
    with Cons.IH [OF lp u1 rest] show ?thesis by simp
  next
    case (Some ex)
    with Cons.prems(1) st have "s' = s1" by simp
    with u1 show ?thesis by simp
  qed
qed

lemma update_loop_establishes:
  "update_loop w s ms = (s', t, None) \<Longrightarrow> list_all succeeded t \<Longrightarrow>
   distinct (map (\<lambda>m. quote_plus (rm_name m)) ms) \<Longrightarrow>
   list_all (up_to_date s') ms"
proof (induction ms arbitrary: s s' t)
  case Nil
  then show ?case by simp
next
  case (Cons m0 ms)
  obtain s1 t1 r1 where st: "update_model w s m0 = (s1, t1, r1)"
    by (cases "update_model w s m0")
  obtain s2 t2 r2 where lp: "update_loop w s1 ms = (s2, t2, r2)"
    by (cases "update_loop w s1 ms")
  have r1: "r1 = None"
    using Cons.prems(1) st by (cases r1) (auto split: prod.splits)
  from Cons.prems(1) st lp r1 have r2: "r2 = None" and s': "s' = s2" and t: "t = t1 @ t2"
    by simp_all
  from Cons.prems(2) t have ok1: "list_all succeeded t1" and ok2: "list_all succeeded t2"
    by simp_all
  have u1: "up_to_date s1 m0"
    using update_model_establishes [OF st [unfolded r1] ok1] .
  have fresh: "quote_plus (rm_name m0) \<notin> set (map (\<lambda>m. quote_plus (rm_name m)) ms)"
    and dist: "distinct (map (\<lambda>m. quote_plus (rm_name m)) ms)"
    using Cons.prems(3) by simp_all
  have "up_to_date s2 m0"
    using update_loop_preserves [OF lp u1 fresh] .
  moreover have "list_all (up_to_date s2) ms"
    using Cons.IH [OF lp [unfolded r2] ok2 dist] .
  ultimately show ?case using s' by simp
qed

lemma update_loop_settled:
  "list_all (up_to_date s) ms \<Longrightarrow> update_loop w s ms = (s, [], None)"
  by (induction ms) (simp_all add: update_model_up_to_date)

lemma update_models_Inr:
  "list_registered_models w = Inr ms \<Longrightarrow>
   update_models w s =
     (case update_loop w (s\<lparr>error_dict := (error_dict s)(''server'' := None)\<rparr>) ms of
        (s1, t, Some ex) \<Rightarrow> (s1, t, Some ex)
      | (s1, t, None) \<Rightarrow> (s1\<lparr>openapi_schema := False\<rparr>, t, None))"
  by (simp add: update_models_def)

lemma second_pass:
  assumes l1: "list_registered_models w1 = Inr ms" and l2: "list_registered_models w2 = Inr ms"
    and names: "distinct (map rm_name ms)"
    and p1: "update_models w1 s = (s1, t1, None)" and ok: "list_all succeeded t1"
  shows "update_models w2 s1 = (s1, [], None)"
proof -
  let ?s0 = "s\<lparr>error_dict := (error_dict s)(''server'' := None)\<rparr>"
  have dist: "distinct (map (\<lambda>m. quote_plus (rm_name m)) ms)"
    using names by (rule distinct_quoted)
  obtain sl tl rl where lp: "update_loop w1 ?s0 ms = (sl, tl, rl)"
    by (cases "update_loop w1 ?s0 ms")
  have rl: "rl = None"
    using p1 lp by (cases rl) (simp_all add: update_models_Inr [OF l1])
  from p1 lp rl have s1: "s1 = sl\<lparr>openapi_schema := False\<rparr>" and tl: "tl = t1"
    by (simp_all add: update_models_Inr [OF l1])
  have key: "error_dict sl ''server'' = None"
    using update_loop_server_key [OF lp] by simp
  have "list_all (up_to_date sl) ms"
    using update_loop_establishes [OF lp [unfolded rl]] ok dist tl by simp
  moreover have "up_to_date s1 m1 = up_to_date sl m1" for m1
    using up_to_date_frame [of s1 sl m1] by (simp add: s1)
  then have "up_to_date s1 = up_to_date sl"
    by (simp add: fun_eq_iff)
  ultimately have settled: "list_all (up_to_date s1) ms"
    by simp
  have "(error_dict s1)(''server'' := None) = error_dict s1"
    using key by (simp add: s1 fun_upd_idem)
  then have same: "s1\<lparr>error_dict := (error_dict s1)(''server'' := None)\<rparr> = s1"
    by simp
  have idle: "s1\<lparr>openapi_schema := False\<rparr> = s1"
    by (simp add: s1)
  have "update_loop w2 s1 ms = (s1, [], None)"
    using settled by (rule update_loop_settled)
  then show ?thesis
    by (simp add: update_models_Inr [OF l2] same idle)
qed

text \<open>
  C9 (as amended): a descriptor whose handler already has the desired run identifier is
  skipped: no construction, no change of the server. Consequently, when a pass returns
  normally and every construction it attempted succeeded, a second pass against the
  same registry listing (whose model names are distinct) attempts no construction and
  leaves the server, its handlers and its routes exactly as they are, whatever the
  outside world would answer to a construction.
\<close>

theorem reconcile_idempotent:
  "(get_version (config s) m0 = Inr mv \<and> model_dict s (quote_plus (rm_name m0)) = Some h
      \<and> run_id h = mv_run_id mv
     \<longrightarrow> update_model w s m0 = (s, [], None))
   \<and> (list_registered_models w1 = Inr ms \<and> list_registered_models w2 = Inr ms
      \<and> distinct (map rm_name ms)
      \<and> update_models w1 s = (s1, t1, None) \<and> list_all succeeded t1
     \<longrightarrow> update_models w2 s1 = (s1, [], None))"
proof (intro conjI impI)
  assume "get_version (config s) m0 = Inr mv \<and> model_dict s (quote_plus (rm_name m0)) = Some h
      \<and> run_id h = mv_run_id mv"
  then have "up_to_date s m0" by (simp add: up_to_date_def)
  then show "update_model w s m0 = (s, [], None)" by (rule update_model_up_to_date)
next
  assume "list_registered_models w1 = Inr ms \<and> list_registered_models w2 = Inr ms
      \<and> distinct (map rm_name ms)
      \<and> update_models w1 s = (s1, t1, None) \<and> list_all succeeded t1"
  then show "update_models w2 s1 = (s1, [], None)"
    using second_pass by blast
qed

lemma built_pass_eval:
  "snd (snd (update_models (world_of (Inr [registered ''iris'' [v_none, v_new]]) (\<lambda>m. ext_ok)) server0)) = None
   \<and> list_all succeeded (fst (snd (update_models (world_of (Inr [registered ''iris'' [v_none, v_new]]) (\<lambda>m. ext_ok)) server0)))"
  by (simp add: fixtures pass_defs build_defs)

theorem reconcile_idempotent_witness:
  "update_model (world_of (Inr [registered ''iris'' [v_none, v_prod]]) (\<lambda>m. ext_ok)) server0
       (registered ''iris'' [v_none, v_prod]) = (server0, [], None)
   \<and> update_models (world_of (Inr [registered ''iris'' [v_none, v_new]]) (\<lambda>m. ext_download_fails ''offline''))
        (fst (update_models (world_of (Inr [registered ''iris'' [v_none, v_new]]) (\<lambda>m. ext_ok)) server0))
     = (fst (update_models (world_of (Inr [registered ''iris'' [v_none, v_new]]) (\<lambda>m. ext_ok)) server0), [], None)"
proof -
  let ?w1 = "world_of (Inr [registered ''iris'' [v_none, v_new]]) (\<lambda>m. ext_ok)"
  let ?w2 = "world_of (Inr [registered ''iris'' [v_none, v_new]]) (\<lambda>m. ext_download_fails ''offline'')"
  let ?w = "world_of (Inr [registered ''iris'' [v_none, v_prod]]) (\<lambda>m. ext_ok)"
  let ?p = "update_models ?w1 server0"
  note inst = reconcile_idempotent [where s = server0 and ?m0.0 = "registered ''iris'' [v_none, v_prod]"
      and mv = v_prod and h = iris_handler and w = ?w and ?w1.0 = ?w1 and ?w2.0 = ?w2
      and ms = "[registered ''iris'' [v_none, v_new]]" and ?s1.0 = "fst ?p" and ?t1.0 = "fst (snd ?p)"]
  have h1: "get_version (config server0) (registered ''iris'' [v_none, v_prod]) = Inr v_prod"
    by (simp add: fixtures get_version_def index0_def)
  have h2: "model_dict server0 (quote_plus (rm_name (registered ''iris'' [v_none, v_prod]))) = Some iris_handler"
    by (simp add: fixtures quote_plus_def quote_char_def always_safe_def)
  have h3: "run_id iris_handler = mv_run_id v_prod"
    by (simp add: fixtures)
  have l1: "list_registered_models ?w1 = Inr [registered ''iris'' [v_none, v_new]]"
    and l2: "list_registered_models ?w2 = Inr [registered ''iris'' [v_none, v_new]]"
    by (simp_all add: world_of_def)
  have d: "distinct (map rm_name [registered ''iris'' [v_none, v_new]])"
    by simp
  have e: "?p = (fst ?p, fst (snd ?p), None)"
    using built_pass_eval by (cases ?p) simp
  have ok: "list_all succeeded (fst (snd ?p))"
    using built_pass_eval by simp
  have p1: "update_model ?w server0 (registered ''iris'' [v_none, v_prod]) = (server0, [], None)"
    using inst h1 h2 h3 by blast
  have p2: "update_models ?w2 (fst ?p) = (fst ?p, [], None)"
    using inst l1 l2 d e ok by blast
  show ?thesis using p1 p2 by blast
qed

end
